theory Spec2Isabelle
  imports Main
begin

section \<open>The 16S pipeline: external processes, files and failures\<close>

text \<open>
  The pipeline (\<^verbatim>\<open>16S_pipeline.py\<close>) is a set of task classes; every task builds an
  argument vector and hands it to \<^verbatim>\<open>run_cmd\<close>, which calls
  \<^verbatim>\<open>subprocess.check_output\<close>. Nothing of what an external tool does is known to the
  pipeline, so the operating system with its installed tools is a parameter of the model:
  a function from a command and the current file system to what the child process did.
\<close>

subsection \<open>File system\<close>

text \<open>
  A path is absent, or present as a readable file with contents, as a file the process may
  not read, or as a directory.
\<close>

datatype entry = Data string | Locked | Folder

type_synonym fsys = "string \<rightharpoonup> entry"

type_synonym command = "string list"

subsection \<open>Exceptions\<close>

text \<open>
  The exceptions the program meets. \<open>CalledProcessError returncode cmd output\<close> is what
  \<^verbatim>\<open>check_output\<close> raises on a nonzero exit status; \<^verbatim>\<open>check_output(cmd)\<close> is called with
  no \<^verbatim>\<open>stderr\<close> argument, so the child's standard error is not captured and the exception
  holds the captured standard output only. \<open>OSError\<close> covers \<^verbatim>\<open>FileNotFoundError\<close>
  (\<open>ENOENT\<close>), \<^verbatim>\<open>PermissionError\<close> (\<open>EACCES\<close>) and \<^verbatim>\<open>IsADirectoryError\<close> (\<open>EISDIR\<close>).
  \<open>UnicodeDecodeError\<close> is what reading a file opened in text mode raises when its bytes
  are no text in the encoding in use.
  \<open>SystemExit\<close> is what \<^verbatim>\<open>sys.exit\<close> raises; it is no subclass of \<^verbatim>\<open>Exception\<close>.
  \<open>AttributeError\<close>, \<open>TypeError\<close> and \<open>KeyError\<close> come from reading a task's input.
  \<open>CyclicDependency\<close> and \<open>IncompleteOutput\<close> are the two failure conditions of the
  scheduler.
\<close>

datatype oserror = ENOENT | EACCES | EISDIR

datatype exn =
    CalledProcessError int command string
  | OSError oserror
  | UnicodeDecodeError
  | SystemExit int
  | AttributeError
  | TypeError
  | KeyError string
  | CyclicDependency
  | IncompleteOutput

fun is_Exception :: "exn \<Rightarrow> bool" where
  "is_Exception (SystemExit n) = False"
| "is_Exception e = True"

datatype 'a outcome = Val 'a | Raise exn

subsection \<open>The world a run acts on\<close>

text \<open>
  What a run does is recorded as it happens: each call of \<^verbatim>\<open>check_output\<close> with how
  the child ended, each \<^verbatim>\<open>logger.error\<close>, each file opened for reading with the error
  the opening met, each reading of an opened file that failed to decode it, and each
  target written.
\<close>

datatype status = Exit int | No_start oserror

datatype event =
    Called command status
  | Logged string
  | Opened string "oserror option"
  | Misread string
  | Wrote string string

record world =
  files :: fsys
  trace :: "event list"

type_synonym 'a prog = "world \<Rightarrow> 'a outcome \<times> world"

definition ret :: "'a \<Rightarrow> 'a prog" where
  "ret x w = (Val x, w)"

definition seq :: "'a prog \<Rightarrow> ('a \<Rightarrow> 'b prog) \<Rightarrow> 'b prog" where
  "seq m f w = (case m w of (Val x, w') \<Rightarrow> f x w' | (Raise e, w') \<Rightarrow> (Raise e, w'))"

definition lift :: "'a outcome \<Rightarrow> 'a prog" where
  "lift r w = (r, w)"

definition logger_error :: "string \<Rightarrow> world \<Rightarrow> world" where
  "logger_error msg w = w\<lparr>trace := trace w @ [Logged msg]\<rparr>"

subsection \<open>Tasks and configuration\<close>

text \<open>The task classes of the pipeline.\<close>

datatype task =
    Import_Data
  | Summarize
  | Denoise
  | Denoise_Tabulate
  | Taxonomic_Classification
  | Taxonomy_Tabulate
  | Export_Feature_Table
  | Export_Taxonomy
  | Export_Representative_Seqs
  | Convert_Biom_to_TSV
  | Generate_Combined_Feature_Table
  | Run_All

text \<open>
  The parameters, read from \<^verbatim>\<open>configuration/luigi.cfg\<close> or defaulted:
  \<^verbatim>\<open>Out_Prefix().prefix\<close>, \<^verbatim>\<open>Samples().manifest_file\<close>, and the parameters of
  \<^verbatim>\<open>Import_Data\<close>, \<^verbatim>\<open>Denoise\<close> and \<^verbatim>\<open>Taxonomic_Classification\<close>. Every task is
  instantiated without arguments (\<^verbatim>\<open>Import_Data()\<close>, \<^verbatim>\<open>Denoise()\<close>, ...), so a task class
  and the configuration determine the instance.
\<close>

record config =
  prefix :: string
  manifest_file :: string
  sample_type :: string
  input_format :: string
  trim_left_f :: string
  trunc_len_f :: string
  trim_left_r :: string
  trunc_len_r :: string
  n_threads :: string
  classifier :: string
  n_jobs :: string

text \<open>The defaults the source gives; the three parameters without one are arguments.\<close>

definition defaults :: "string \<Rightarrow> string \<Rightarrow> string \<Rightarrow> config" where
  "defaults pre manifest clf =
     \<lparr>prefix = pre, manifest_file = manifest,
      sample_type = ''SampleData[PairedEndSequencesWithQuality]'',
      input_format = ''PairedEndFastqManifestPhred33'',
      trim_left_f = ''19'', trunc_len_f = ''250'', trim_left_r = ''20'',
      trunc_len_r = ''250'', n_threads = ''10'', classifier = clf, n_jobs = ''10''\<rparr>"

subsection \<open>The platform\<close>

text \<open>
  What a child process did: it exited with a status, its captured standard output, what it
  wrote to standard error and the file system it left; or it could not be started.
\<close>

datatype child = Exited int string string fsys | Not_started oserror

text \<open>
  The parts of the runtime the source calls and does not define: the operating system
  running a command (\<open>spawn\<close>), Python's \<^verbatim>\<open>str\<close> of an exception (\<open>str_exn\<close>), the
  string of a task instance that \<^verbatim>\<open>str(self)\<close> gives (\<open>str_task\<close>), and whether the
  bytes of a file are text in the encoding that \<^verbatim>\<open>open(path, 'r')\<close> uses, which is the
  one of the locale (\<open>decodes\<close>).
\<close>

record platform =
  spawn :: "command \<Rightarrow> fsys \<Rightarrow> child"
  str_exn :: "exn \<Rightarrow> string"
  str_task :: "config \<Rightarrow> task \<Rightarrow> string"
  decodes :: "string \<Rightarrow> bool"

text \<open>
  \<^verbatim>\<open>subprocess.check_output(cmd)\<close>: the captured output on exit status 0,
  \<^verbatim>\<open>CalledProcessError\<close> on any other status, the operating system's error when the
  program cannot be started.
\<close>

definition check_output :: "platform \<Rightarrow> command \<Rightarrow> string prog" where
  "check_output pf cmd w =
     (case spawn pf cmd (files w) of
        Exited code out err fs' \<Rightarrow>
          (if code = 0 then Val out else Raise (CalledProcessError code cmd out),
           \<lparr>files = fs', trace = trace w @ [Called cmd (Exit code)]\<rparr>)
      | Not_started e \<Rightarrow>
          (Raise (OSError e), w\<lparr>trace := trace w @ [Called cmd (No_start e)]\<rparr>))"

subsection \<open>\<^verbatim>\<open>run_cmd\<close>\<close>

text \<open>
  \<^verbatim>\<open>
  def run_cmd(cmd, step):
      try:
          output = check_output(cmd)
      except CalledProcessError as err:
          logger.error("In {step} following error occured\n{err}".format(step=step, err=err))
          sys.exit(1)
      except Exception as err:
          logger.error("In {step} unknown error occured\n{err}".format(step=step, err=err))
          raise err
      return output
  \<close>
\<close>

definition nl :: string where
  "nl = [CHR 0x0A]"

fun run_cmd_except :: "platform \<Rightarrow> string \<Rightarrow> exn \<Rightarrow> string prog" where
  "run_cmd_except pf step (CalledProcessError c k out) w =
     (Raise (SystemExit 1),
      logger_error (''In '' @ step @ '' following error occured'' @ nl
                    @ str_exn pf (CalledProcessError c k out)) w)"
| "run_cmd_except pf step err w =
     (if is_Exception err
      then (Raise err,
            logger_error (''In '' @ step @ '' unknown error occured'' @ nl @ str_exn pf err) w)
      else (Raise err, w))"

definition run_cmd :: "platform \<Rightarrow> command \<Rightarrow> string \<Rightarrow> string prog" where
  "run_cmd pf cmd step w =
     (case check_output pf cmd w of
        (Val output, w') \<Rightarrow> (Val output, w')
      | (Raise err, w') \<Rightarrow> run_cmd_except pf step err w')"


subsection \<open>Paths\<close>

text \<open>
  \<^verbatim>\<open>os.path.join(a, b)\<close> and \<^verbatim>\<open>os.path.dirname(p)\<close> as \<^verbatim>\<open>posixpath\<close> computes them.
\<close>

definition path_join :: "string \<Rightarrow> string \<Rightarrow> string" where
  "path_join a b =
     (if take 1 b = ''/'' then b
      else if a = [] \<or> last a = CHR ''/'' then a @ b
      else a @ ''/'' @ b)"

definition dirname :: "string \<Rightarrow> string" where
  "dirname p =
     (let head = rev (dropWhile (\<lambda>c. c \<noteq> CHR ''/'') (rev p)) in
      if head \<noteq> [] \<and> head \<noteq> replicate (length head) (CHR ''/'')
      then rev (dropWhile (\<lambda>c. c = CHR ''/'') (rev head))
      else head)"

text \<open>\<^verbatim>\<open>class Output_Dirs\<close>\<close>

definition out_dir :: "config \<Rightarrow> string" where
  "out_dir cfg = prefix cfg"

definition denoise_dir :: "config \<Rightarrow> string" where
  "denoise_dir cfg = path_join (out_dir cfg) ''dada2''"

definition taxonomy_dir :: "config \<Rightarrow> string" where
  "taxonomy_dir cfg = path_join (out_dir cfg) ''taxonomy''"

definition export_dir :: "config \<Rightarrow> string" where
  "export_dir cfg = path_join (out_dir cfg) ''exported''"

subsection \<open>Targets, and the shapes \<^verbatim>\<open>requires\<close> and \<^verbatim>\<open>output\<close> return\<close>

datatype fmt = Default | Nop

datatype target = LocalTarget (path: string) (format: fmt)

text \<open>
  A task returns one object, a dictionary of them or a list of them; \<^verbatim>\<open>self.input()\<close> is
  the required tasks' outputs in the shape of \<^verbatim>\<open>requires()\<close>.
\<close>

datatype 'a struct = One 'a | Dict "(string \<times> 'a struct) list" | Seq "'a struct list"

primrec flatten :: "'a struct \<Rightarrow> 'a list" where
  "flatten (One x) = [x]"
| "flatten (Dict kvs) = concat (map snd (map (map_prod id flatten) kvs))"
| "flatten (Seq xs) = concat (map flatten xs)"

primrec getpaths :: "('a \<Rightarrow> 'b struct) \<Rightarrow> 'a struct \<Rightarrow> 'b struct" where
  "getpaths f (One x) = f x"
| "getpaths f (Dict kvs) = Dict (map (map_prod id (getpaths f)) kvs)"
| "getpaths f (Seq xs) = Seq (map (getpaths f) xs)"

text \<open>\<^verbatim>\<open>s.path\<close> and \<^verbatim>\<open>s[k]\<close>, with the errors Python raises when the shape is another.\<close>

fun attr_path :: "target struct \<Rightarrow> string outcome" where
  "attr_path (One t) = Val (path t)"
| "attr_path (Dict kvs) = Raise AttributeError"
| "attr_path (Seq xs) = Raise AttributeError"

fun item :: "'a struct \<Rightarrow> string \<Rightarrow> 'a struct outcome" where
  "item (Dict kvs) k = (case map_of kvs k of Some v \<Rightarrow> Val v | None \<Rightarrow> Raise (KeyError k))"
| "item (One x) k = Raise TypeError"
| "item (Seq xs) k = Raise TypeError"

fun item_target :: "target struct \<Rightarrow> string \<Rightarrow> target outcome" where
  "item_target s k =
     (case item s k of
        Val (One t) \<Rightarrow> Val t
      | Val (Dict kvs) \<Rightarrow> Raise AttributeError
      | Val (Seq xs) \<Rightarrow> Raise AttributeError
      | Raise e \<Rightarrow> Raise e)"

definition the_path :: "target struct \<Rightarrow> string prog" where
  "the_path s = lift (attr_path s)"

definition key_path :: "target struct \<Rightarrow> string \<Rightarrow> string prog" where
  "key_path s k = lift (case item s k of Val v \<Rightarrow> attr_path v | Raise e \<Rightarrow> Raise e)"

subsection \<open>\<^verbatim>\<open>requires\<close>, \<^verbatim>\<open>output\<close> and \<^verbatim>\<open>input\<close> of every task\<close>

text \<open>
  \<^verbatim>\<open>Import_Data\<close> defines no \<^verbatim>\<open>requires\<close> and \<^verbatim>\<open>Run_All\<close> no \<^verbatim>\<open>output\<close>: both are then
  empty.
\<close>

fun requires :: "task \<Rightarrow> task struct" where
  "requires Import_Data = Seq []"
| "requires Summarize = One Import_Data"
| "requires Denoise = One Import_Data"
| "requires Denoise_Tabulate = One Denoise"
| "requires Taxonomic_Classification = One Denoise"
| "requires Taxonomy_Tabulate = One Taxonomic_Classification"
| "requires Export_Feature_Table = One Denoise"
| "requires Export_Taxonomy = One Taxonomic_Classification"
| "requires Export_Representative_Seqs = One Denoise"
| "requires Convert_Biom_to_TSV = One Export_Feature_Table"
| "requires Generate_Combined_Feature_Table =
     Dict [(''Export_Taxonomy'', One Export_Taxonomy),
           (''Export_Representative_Seqs'', One Export_Representative_Seqs),
           (''Convert_Biom_to_TSV'', One Convert_Biom_to_TSV)]"
| "requires Run_All =
     Seq [One Import_Data, One Summarize, One Denoise, One Denoise_Tabulate,
          One Taxonomic_Classification, One Taxonomy_Tabulate, One Export_Feature_Table,
          One Export_Taxonomy, One Export_Representative_Seqs, One Convert_Biom_to_TSV,
          One Generate_Combined_Feature_Table]"

fun "output" :: "config \<Rightarrow> task \<Rightarrow> target struct" where
  "output cfg Import_Data =
     One (LocalTarget (path_join (out_dir cfg) ''paired-end-demux.qza'') Default)"
| "output cfg Summarize =
     One (LocalTarget (path_join (out_dir cfg) ''paired-end-demux.qzv'') Default)"
| "output cfg Denoise =
     Dict [(''table'', One (LocalTarget (path_join (denoise_dir cfg) ''dada2-table.qza'') Default)),
           (''rep_seqs'', One (LocalTarget (path_join (denoise_dir cfg) ''dada2-rep-seqs.qza'') Default)),
           (''stats'', One (LocalTarget (path_join (denoise_dir cfg) ''stats-dada2.qza'') Default)),
           (''log'', One (LocalTarget (path_join (denoise_dir cfg) ''dada2_log.txt'') Nop))]"
| "output cfg Denoise_Tabulate =
     One (LocalTarget (path_join (denoise_dir cfg) ''stats-dada2.qzv'') Default)"
| "output cfg Taxonomic_Classification =
     Dict [(''taxonomy'', One (LocalTarget (path_join (taxonomy_dir cfg) ''taxonomy.qza'') Default)),
           (''log'', One (LocalTarget (path_join (taxonomy_dir cfg) ''taxonomy_log.txt'') Nop))]"
| "output cfg Taxonomy_Tabulate =
     One (LocalTarget (path_join (taxonomy_dir cfg) ''taxonomy.qzv'') Default)"
| "output cfg Export_Feature_Table =
     One (LocalTarget (path_join (export_dir cfg) ''feature-table.biom'') Default)"
| "output cfg Export_Taxonomy =
     One (LocalTarget (path_join (export_dir cfg) ''taxonomy.tsv'') Default)"
| "output cfg Export_Representative_Seqs =
     One (LocalTarget (path_join (export_dir cfg) ''dna-sequences.fasta'') Default)"
| "output cfg Convert_Biom_to_TSV =
     One (LocalTarget (path_join (export_dir cfg) ''feature-table.tsv'') Default)"
| "output cfg Generate_Combined_Feature_Table =
     Dict [(''table'', One (LocalTarget (path_join (export_dir cfg) ''ASV_table_combined.tsv'') Default)),
           (''log'', One (LocalTarget (path_join (export_dir cfg) ''ASV_table_combined.log'') Nop))]"
| "output cfg Run_All = Seq []"

definition "input" :: "config \<Rightarrow> task \<Rightarrow> target struct" where
  "input cfg t = getpaths (output cfg) (requires t)"


subsection \<open>Reading the manifest, writing a log\<close>

text \<open>
  \<^verbatim>\<open>with open(inputPath, 'r') as fh: fh.readlines()\<close>. Opening fails on a path that is
  absent, may not be read or is a directory. The file is opened in text mode, so reading
  it decodes its bytes, and fails when they are no text in the encoding in use.
\<close>

definition open_read :: "platform \<Rightarrow> string \<Rightarrow> string prog" where
  "open_read pf p w =
     (case files w p of
        None \<Rightarrow> (Raise (OSError ENOENT), w\<lparr>trace := trace w @ [Opened p (Some ENOENT)]\<rparr>)
      | Some (Data c) \<Rightarrow>
          if decodes pf c
          then (Val c, w\<lparr>trace := trace w @ [Opened p None]\<rparr>)
          else (Raise UnicodeDecodeError,
                w\<lparr>trace := trace w @ [Opened p None, Misread p]\<rparr>)
      | Some Locked \<Rightarrow> (Raise (OSError EACCES), w\<lparr>trace := trace w @ [Opened p (Some EACCES)]\<rparr>)
      | Some Folder \<Rightarrow> (Raise (OSError EISDIR), w\<lparr>trace := trace w @ [Opened p (Some EISDIR)]\<rparr>))"

text \<open>
  Modelled from the spec: the Artifact Target's \<^verbatim>\<open>open\<close> for writing (the class
  \<^verbatim>\<open>luigi.LocalTarget\<close> is not in the source file). \<^verbatim>\<open>with t.open('wb') as fh: fh.write(data)\<close>
  leaves the file at the target's path holding the data.
\<close>

definition write_target :: "target \<Rightarrow> string \<Rightarrow> unit prog" where
  "write_target t data w =
     (Val (), w\<lparr>files := (files w)(path t \<mapsto> Data data),
                trace := trace w @ [Wrote (path t) data]\<rparr>)"

subsection \<open>The \<^verbatim>\<open>run\<close> method of every task\<close>

text \<open>
  The \<^verbatim>\<open>try\<close> block of \<^verbatim>\<open>Import_Data.run\<close>:
  \<^verbatim>\<open>
  try:
      with open(inputPath, 'r') as fh:
          fh.readlines()
  except FileNotFoundError:
      logger.error("Input file for qiime tools import does not exist...")
      sys.exit(1)
  except Exception as err:
      logger.error("In Import_Data() following error occured\n" + str(err))
      raise
  \<close>
\<close>

fun input_except :: "platform \<Rightarrow> exn \<Rightarrow> unit prog" where
  "input_except pf (OSError ENOENT) w =
     (Raise (SystemExit 1),
      logger_error ''Input file for qiime tools import does not exist...'' w)"
| "input_except pf err w =
     (if is_Exception err
      then (Raise err,
            logger_error (''In Import_Data() following error occured'' @ nl @ str_exn pf err) w)
      else (Raise err, w))"

definition check_input :: "platform \<Rightarrow> string \<Rightarrow> unit prog" where
  "check_input pf inputPath w =
     (case open_read pf inputPath w of
        (Val ls, w') \<Rightarrow> (Val (), w')
      | (Raise err, w') \<Rightarrow> input_except pf err w')"

definition Import_Data_run :: "platform \<Rightarrow> config \<Rightarrow> unit prog" where
  "Import_Data_run pf cfg =
     (let step = str_task pf cfg Import_Data in
      seq (run_cmd pf [''mkdir'', ''-p'', out_dir cfg] step) (\<lambda>_.
      let inputPath = manifest_file cfg in
      seq (check_input pf inputPath) (\<lambda>_.
      seq (the_path (output cfg Import_Data)) (\<lambda>out.
      seq (run_cmd pf
             [''qiime'', ''tools'', ''import'',
              ''--type'', sample_type cfg,
              ''--input-path'', inputPath,
              ''--output-path'', out,
              ''--input-format'', input_format cfg]
             step) (\<lambda>_.
      ret ())))))"

definition Summarize_run :: "platform \<Rightarrow> config \<Rightarrow> unit prog" where
  "Summarize_run pf cfg =
     (let step = str_task pf cfg Summarize in
      seq (run_cmd pf [''mkdir'', ''-p'', out_dir cfg] step) (\<lambda>_.
      seq (the_path (input cfg Summarize)) (\<lambda>i.
      seq (the_path (output cfg Summarize)) (\<lambda>out.
      seq (run_cmd pf
             [''qiime'', ''demux'', ''summarize'',
              ''--i-data'', i,
              ''--o-visualization'', out]
             step) (\<lambda>_.
      ret ())))))"

definition Denoise_run :: "platform \<Rightarrow> config \<Rightarrow> unit prog" where
  "Denoise_run pf cfg =
     (let step = str_task pf cfg Denoise in
      seq (run_cmd pf [''mkdir'', ''-p'', denoise_dir cfg] step) (\<lambda>_.
      seq (the_path (input cfg Denoise)) (\<lambda>i.
      seq (key_path (output cfg Denoise) ''table'') (\<lambda>tbl.
      seq (key_path (output cfg Denoise) ''rep_seqs'') (\<lambda>rs.
      seq (key_path (output cfg Denoise) ''stats'') (\<lambda>st.
      seq (run_cmd pf
             [''qiime'', ''dada2'', ''denoise-paired'',
              ''--i-demultiplexed-seqs'', i,
              ''--p-trim-left-f'', trim_left_f cfg,
              ''--p-trunc-len-f'', trunc_len_f cfg,
              ''--p-trim-left-r'', trim_left_r cfg,
              ''--p-trunc-len-r'', trunc_len_r cfg,
              ''--p-n-threads'', n_threads cfg,
              ''--o-table'', tbl,
              ''--o-representative-sequences'', rs,
              ''--o-denoising-stats'', st,
              ''--verbose'']
             step) (\<lambda>out.
      seq (lift (item_target (output cfg Denoise) ''log'')) (\<lambda>lg.
      write_target lg out))))))))"

definition Denoise_Tabulate_run :: "platform \<Rightarrow> config \<Rightarrow> unit prog" where
  "Denoise_Tabulate_run pf cfg =
     (let step = str_task pf cfg Denoise_Tabulate in
      seq (run_cmd pf [''mkdir'', ''-p'', denoise_dir cfg] step) (\<lambda>_.
      seq (key_path (input cfg Denoise_Tabulate) ''stats'') (\<lambda>i.
      seq (the_path (output cfg Denoise_Tabulate)) (\<lambda>out.
      seq (run_cmd pf
             [''qiime'', ''metadata'', ''tabulate'',
              ''--m-input-file'', i,
              ''--o-visualization'', out]
             step) (\<lambda>_.
      ret ())))))"

definition Taxonomic_Classification_run :: "platform \<Rightarrow> config \<Rightarrow> unit prog" where
  "Taxonomic_Classification_run pf cfg =
     (let step = str_task pf cfg Taxonomic_Classification in
      seq (run_cmd pf [''mkdir'', ''-p'', taxonomy_dir cfg] step) (\<lambda>_.
      seq (key_path (input cfg Taxonomic_Classification) ''rep_seqs'') (\<lambda>i.
      seq (key_path (output cfg Taxonomic_Classification) ''taxonomy'') (\<lambda>tx.
      seq (run_cmd pf
             [''qiime'', ''feature-classifier'', ''classify-sklearn'',
              ''--i-classifier'', classifier cfg,
              ''--i-reads'', i,
              ''--o-classification'', tx,
              ''--p-n-jobs'', n_jobs cfg,
              ''--verbose'']
             step) (\<lambda>out.
      seq (lift (item_target (output cfg Taxonomic_Classification) ''log'')) (\<lambda>lg.
      write_target lg out))))))"

definition Taxonomy_Tabulate_run :: "platform \<Rightarrow> config \<Rightarrow> unit prog" where
  "Taxonomy_Tabulate_run pf cfg =
     (let step = str_task pf cfg Taxonomy_Tabulate in
      seq (run_cmd pf [''mkdir'', ''-p'', taxonomy_dir cfg] step) (\<lambda>_.
      seq (key_path (input cfg Taxonomy_Tabulate) ''taxonomy'') (\<lambda>i.
      seq (the_path (output cfg Taxonomy_Tabulate)) (\<lambda>out.
      seq (run_cmd pf
             [''qiime'', ''metadata'', ''tabulate'',
              ''--m-input-file'', i,
              ''--o-visualization'', out]
             step) (\<lambda>_.
      ret ())))))"

definition Export_Feature_Table_run :: "platform \<Rightarrow> config \<Rightarrow> unit prog" where
  "Export_Feature_Table_run pf cfg =
     (let step = str_task pf cfg Export_Feature_Table in
      seq (run_cmd pf [''mkdir'', ''-p'', export_dir cfg] step) (\<lambda>_.
      seq (key_path (input cfg Export_Feature_Table) ''table'') (\<lambda>i.
      seq (the_path (output cfg Export_Feature_Table)) (\<lambda>out.
      seq (run_cmd pf
             [''qiime'', ''tools'', ''export'',
              ''--input-path'', i,
              ''--output-path'', dirname out]
             step) (\<lambda>_.
      ret ())))))"

definition Export_Taxonomy_run :: "platform \<Rightarrow> config \<Rightarrow> unit prog" where
  "Export_Taxonomy_run pf cfg =
     (let step = str_task pf cfg Export_Taxonomy in
      seq (run_cmd pf [''mkdir'', ''-p'', export_dir cfg] step) (\<lambda>_.
      seq (key_path (input cfg Export_Taxonomy) ''taxonomy'') (\<lambda>i.
      seq (the_path (output cfg Export_Taxonomy)) (\<lambda>out.
      seq (run_cmd pf
             [''qiime'', ''tools'', ''export'',
              ''--input-path'', i,
              ''--output-path'', dirname out]
             step) (\<lambda>_.
      ret ())))))"

definition Export_Representative_Seqs_run :: "platform \<Rightarrow> config \<Rightarrow> unit prog" where
  "Export_Representative_Seqs_run pf cfg =
     (let step = str_task pf cfg Export_Representative_Seqs in
      seq (run_cmd pf [''mkdir'', ''-p'', export_dir cfg] step) (\<lambda>_.
      seq (key_path (input cfg Export_Representative_Seqs) ''rep_seqs'') (\<lambda>i.
      seq (the_path (output cfg Export_Representative_Seqs)) (\<lambda>out.
      seq (run_cmd pf
             [''qiime'', ''tools'', ''export'',
              ''--input-path'', i,
              ''--output-path'', dirname out]
             step) (\<lambda>_.
      ret ())))))"

definition Convert_Biom_to_TSV_run :: "platform \<Rightarrow> config \<Rightarrow> unit prog" where
  "Convert_Biom_to_TSV_run pf cfg =
     (let step = str_task pf cfg Convert_Biom_to_TSV in
      seq (run_cmd pf [''mkdir'', ''-p'', export_dir cfg] step) (\<lambda>_.
      seq (the_path (input cfg Convert_Biom_to_TSV)) (\<lambda>i.
      seq (the_path (output cfg Convert_Biom_to_TSV)) (\<lambda>out.
      seq (run_cmd pf
             [''biom'', ''convert'',
              ''-i'', i,
              ''-o'', out,
              ''--to-tsv'']
             step) (\<lambda>_.
      ret ())))))"

definition Generate_Combined_Feature_Table_run :: "platform \<Rightarrow> config \<Rightarrow> unit prog" where
  "Generate_Combined_Feature_Table_run pf cfg =
     (let step = str_task pf cfg Generate_Combined_Feature_Table in
      seq (run_cmd pf [''mkdir'', ''-p'', export_dir cfg] step) (\<lambda>_.
      seq (key_path (input cfg Generate_Combined_Feature_Table) ''Convert_Biom_to_TSV'') (\<lambda>f.
      seq (key_path (input cfg Generate_Combined_Feature_Table) ''Export_Representative_Seqs'') (\<lambda>s.
      seq (key_path (input cfg Generate_Combined_Feature_Table) ''Export_Taxonomy'') (\<lambda>t.
      seq (key_path (output cfg Generate_Combined_Feature_Table) ''table'') (\<lambda>out.
      seq (run_cmd pf
             [''generate_combined_feature_table.py'',
              ''-f'', f,
              ''-s'', s,
              ''-t'', t,
              ''-o'', out]
             step) (\<lambda>logged.
      seq (lift (item_target (output cfg Generate_Combined_Feature_Table) ''log'')) (\<lambda>lg.
      write_target lg logged))))))))"

text \<open>\<^verbatim>\<open>Run_All\<close> defines no \<^verbatim>\<open>run\<close>: running it does nothing.\<close>

fun task_run :: "platform \<Rightarrow> config \<Rightarrow> task \<Rightarrow> unit prog" where
  "task_run pf cfg Import_Data = Import_Data_run pf cfg"
| "task_run pf cfg Summarize = Summarize_run pf cfg"
| "task_run pf cfg Denoise = Denoise_run pf cfg"
| "task_run pf cfg Denoise_Tabulate = Denoise_Tabulate_run pf cfg"
| "task_run pf cfg Taxonomic_Classification = Taxonomic_Classification_run pf cfg"
| "task_run pf cfg Taxonomy_Tabulate = Taxonomy_Tabulate_run pf cfg"
| "task_run pf cfg Export_Feature_Table = Export_Feature_Table_run pf cfg"
| "task_run pf cfg Export_Taxonomy = Export_Taxonomy_run pf cfg"
| "task_run pf cfg Export_Representative_Seqs = Export_Representative_Seqs_run pf cfg"
| "task_run pf cfg Convert_Biom_to_TSV = Convert_Biom_to_TSV_run pf cfg"
| "task_run pf cfg Generate_Combined_Feature_Table = Generate_Combined_Feature_Table_run pf cfg"
| "task_run pf cfg Run_All = ret ()"


section \<open>Targets that exist, tasks that are complete\<close>

text \<open>
  Modelled from the spec: \<^verbatim>\<open>exists()\<close> of an Artifact Target (the class
  \<^verbatim>\<open>luigi.LocalTarget\<close> is not in the source file). The spec, section 4.1: true iff the
  underlying path is present and, for file-backed targets, non-empty and readable. Every
  target of the pipeline is file-backed.
\<close>

definition exists :: "world \<Rightarrow> target \<Rightarrow> bool" where
  "exists w t = (case files w (path t) of Some (Data c) \<Rightarrow> c \<noteq> [] | _ \<Rightarrow> False)"

text \<open>
  Modelled from the spec: the completeness check (the method \<^verbatim>\<open>complete\<close> of
  \<^verbatim>\<open>luigi.Task\<close> is not in the source file). The spec, section 4.2: a node is complete
  iff every target in \<^verbatim>\<open>outputs()\<close> reports that it exists.
\<close>

definition complete :: "config \<Rightarrow> task \<Rightarrow> world \<Rightarrow> bool" where
  "complete cfg t w = list_all (exists w) (flatten (output cfg t))"

section \<open>The scheduler\<close>

text \<open>
  A graph of nodes as the scheduler sees it: the dependencies of a node in declaration
  order, the completeness check, and the run procedure.
\<close>

record ('n, 'w) engine =
  dependencies :: "'n \<Rightarrow> 'n list"
  is_complete :: "'n \<Rightarrow> 'w \<Rightarrow> bool"
  run_node :: "'n \<Rightarrow> 'w \<Rightarrow> unit outcome \<times> 'w"

text \<open>
  The state of one resolution: the world, the nodes already resolved, and the run
  procedures invoked so far, in order, each with how it ended and the world it left.
\<close>

record ('n, 'w) sched =
  world_of :: 'w
  resolved :: "'n list"
  invoked :: "('n \<times> unit outcome \<times> 'w) list"

text \<open>
  Modelled from the spec: the dependency resolver (\<^verbatim>\<open>luigi.run()\<close> and the scheduler
  behind it are not in the source file). The spec, section 4.3, step by step: a resolved
  node is not looked at again; a node on the visiting path is a \<open>CyclicDependency\<close>;
  otherwise the dependencies are resolved in declaration order, each to its end, the
  first failure ending the resolution; then a complete node is skipped, an incomplete
  one is run, and a run that returns and leaves a declared output missing is an
  \<open>IncompleteOutput\<close>.
\<close>

function resolve :: "('n::finite, 'w) engine \<Rightarrow> 'n list \<Rightarrow> 'n \<Rightarrow> ('n, 'w) sched
                       \<Rightarrow> unit outcome \<times> ('n, 'w) sched"
  and resolve_all :: "('n::finite, 'w) engine \<Rightarrow> 'n list \<Rightarrow> 'n list \<Rightarrow> ('n, 'w) sched
                       \<Rightarrow> unit outcome \<times> ('n, 'w) sched" where
  "resolve g visiting n s =
     (if n \<in> set (resolved s) then (Val (), s)
      else if n \<in> set visiting then (Raise CyclicDependency, s)
      else
        (case resolve_all g (n # visiting) (dependencies g n) s of
          (Raise e, s1) \<Rightarrow> (Raise e, s1)
        | (Val u, s1) \<Rightarrow>
            (if is_complete g n (world_of s1)
             then (Val (), s1\<lparr>resolved := n # resolved s1\<rparr>)
             else
               (case run_node g n (world_of s1) of
                 (Raise e, w2) \<Rightarrow>
                   (Raise e, s1\<lparr>world_of := w2, invoked := invoked s1 @ [(n, Raise e, w2)]\<rparr>)
               | (Val u, w2) \<Rightarrow>
                   (if is_complete g n w2
                    then (Val (), \<lparr>world_of = w2, resolved = n # resolved s1,
                                   invoked = invoked s1 @ [(n, Val (), w2)]\<rparr>)
                    else (Raise IncompleteOutput,
                          s1\<lparr>world_of := w2,
                             invoked := invoked s1 @ [(n, Val (), w2)]\<rparr>))))))"
| "resolve_all g visiting [] s = (Val (), s)"
| "resolve_all g visiting (d # ds) s =
     (case resolve g visiting d s of
        (Raise e, s1) \<Rightarrow> (Raise e, s1)
      | (Val u, s1) \<Rightarrow> resolve_all g visiting ds s1)"
  by pat_completeness auto
termination
proof (relation "inv_image (less_than <*lex*> less_than)
        (\<lambda>x. case x of
           Inl (g, visiting, n, s) \<Rightarrow> (card (UNIV - set visiting), 0)
         | Inr (g, visiting, ds, s) \<Rightarrow> (card (UNIV - set visiting), Suc (length ds)))",
       goal_cases)
  case 1
  show ?case by (intro wf_inv_image wf_lex_prod wf_less_than)
next
  case 2
  then show ?case
    by (auto simp: card_gt_0_iff subset_iff intro!: diff_less)
next
  case 3
  show ?case by simp
next
  case 4
  show ?case by simp
qed

section \<open>The pipeline as a graph, and the process running it\<close>

instantiation task :: finite
begin

instance
proof
  have "(UNIV :: task set) =
          {Import_Data, Summarize, Denoise, Denoise_Tabulate, Taxonomic_Classification,
           Taxonomy_Tabulate, Export_Feature_Table, Export_Taxonomy,
           Export_Representative_Seqs, Convert_Biom_to_TSV,
           Generate_Combined_Feature_Table, Run_All}"
    by (auto intro: task.exhaust)
  then show "finite (UNIV :: task set)"
    by (metis finite.emptyI finite.insertI)
qed

end

definition pipeline :: "platform \<Rightarrow> config \<Rightarrow> (task, world) engine" where
  "pipeline pf cfg =
     \<lparr>dependencies = (\<lambda>t. flatten (requires t)),
      is_complete = complete cfg,
      run_node = task_run pf cfg\<rparr>"

definition start :: "world \<Rightarrow> (task, world) sched" where
  "start w = \<lparr>world_of = w, resolved = [], invoked = []\<rparr>"

text \<open>
  The exit status of the Python process: 0 when the program ends, the argument of
  \<^verbatim>\<open>sys.exit\<close> when a \<open>SystemExit\<close> ends it, 1 when another exception does.
\<close>

fun exit_status :: "unit outcome \<Rightarrow> int" where
  "exit_status (Val u) = 0"
| "exit_status (Raise (SystemExit n)) = n"
| "exit_status (Raise e) = 1"

text \<open>
  Modelled from the spec: the program's entry \<^verbatim>\<open>luigi.run()\<close>, which resolves the task
  named on the command line (the spec, sections 6 and 7: every failure is fatal to the
  whole run, the first one ends it).
\<close>

definition main :: "platform \<Rightarrow> config \<Rightarrow> task \<Rightarrow> world \<Rightarrow> int \<times> (task, world) sched" where
  "main pf cfg root w =
     (case resolve (pipeline pf cfg) [] root (start w) of (r, s) \<Rightarrow> (exit_status r, s))"

section \<open>A machine to run the pipeline on\<close>

text \<open>
  A concrete platform for the examples. Its \<^verbatim>\<open>mkdir -p d\<close> makes the directory. Its
  \<^verbatim>\<open>qiime\<close> reads the argument after each input option and writes a file at the argument
  after each output option: it exits with status 1 when an input is not a readable file,
  else with status 0 and the output \<^verbatim>\<open>Saved\<close>. No other program is installed.
\<close>

definition input_options :: "string list" where
  "input_options =
     [''--input-path'', ''--i-data'', ''--i-demultiplexed-seqs'', ''--m-input-file'',
      ''--i-classifier'', ''--i-reads'']"

definition output_options :: "string list" where
  "output_options =
     [''--output-path'', ''--o-visualization'', ''--o-table'',
      ''--o-representative-sequences'', ''--o-denoising-stats'', ''--o-classification'']"

fun after_options :: "string list \<Rightarrow> command \<Rightarrow> string list" where
  "after_options opts (a # b # rest) =
     (if a \<in> set opts then b # after_options opts rest else after_options opts (b # rest))"
| "after_options opts rest = []"

fun readable :: "fsys \<Rightarrow> string \<Rightarrow> bool" where
  "readable fs p = (case fs p of Some (Data c) \<Rightarrow> True | _ \<Rightarrow> False)"

fun create :: "string list \<Rightarrow> fsys \<Rightarrow> fsys" where
  "create [] fs = fs"
| "create (p # ps) fs = create ps (fs(p \<mapsto> Data ''artifact''))"

definition lab_spawn :: "command \<Rightarrow> fsys \<Rightarrow> child" where
  "lab_spawn cmd fs =
     (case cmd of
        [] \<Rightarrow> Not_started ENOENT
      | prog # args \<Rightarrow>
          if prog = ''mkdir'' then
            (case args of
               [opt, d] \<Rightarrow> Exited 0 [] [] (fs(d \<mapsto> Folder))
             | _ \<Rightarrow> Exited 1 [] ''mkdir: missing operand'' fs)
          else if prog = ''qiime'' then
            (if list_all (readable fs) (after_options input_options args)
             then Exited 0 ''Saved'' [] (create (after_options output_options args) fs)
             else Exited 1 [] ''There was a problem with the command'' fs)
          else Not_started ENOENT)"

fun task_name :: "task \<Rightarrow> string" where
  "task_name Import_Data = ''Import_Data''"
| "task_name Summarize = ''Summarize''"
| "task_name Denoise = ''Denoise''"
| "task_name Denoise_Tabulate = ''Denoise_Tabulate''"
| "task_name Taxonomic_Classification = ''Taxonomic_Classification''"
| "task_name Taxonomy_Tabulate = ''Taxonomy_Tabulate''"
| "task_name Export_Feature_Table = ''Export_Feature_Table''"
| "task_name Export_Taxonomy = ''Export_Taxonomy''"
| "task_name Export_Representative_Seqs = ''Export_Representative_Seqs''"
| "task_name Convert_Biom_to_TSV = ''Convert_Biom_to_TSV''"
| "task_name Generate_Combined_Feature_Table = ''Generate_Combined_Feature_Table''"
| "task_name Run_All = ''Run_All''"

text \<open>The encoding of the machine is ASCII: bytes decode when each is below 128.\<close>

definition ascii :: "string \<Rightarrow> bool" where
  "ascii c = list_all (\<lambda>ch. \<not> digit7 ch) c"

fun lab_str_exn :: "exn \<Rightarrow> string" where
  "lab_str_exn (CalledProcessError c k out) = ''Command returned non-zero exit status''"
| "lab_str_exn (OSError e) = ''No such file or directory''"
| "lab_str_exn UnicodeDecodeError = ''codec can't decode byte''"
| "lab_str_exn e = ''error''"

definition lab :: platform where
  "lab = \<lparr>spawn = lab_spawn, str_exn = lab_str_exn,
           str_task = (\<lambda>cfg t. task_name t @ ''()''), decodes = ascii\<rparr>"

definition lab_config :: config where
  "lab_config = defaults ''out'' ''manifest.txt'' ''classifier.qza''"

definition fresh :: world where
  "fresh = \<lparr>files = [''manifest.txt'' \<mapsto> Data ''sample-id,absolute-filepath,direction''],
            trace = []\<rparr>"

definition bare :: world where
  "bare = \<lparr>files = Map.empty, trace = []\<rparr>"

section \<open>Reading a trace\<close>

fun is_write :: "event \<Rightarrow> bool" where
  "is_write (Wrote p c) = True"
| "is_write ev = False"

fun is_open :: "event \<Rightarrow> bool" where
  "is_open (Opened p r) = True"
| "is_open (Misread p) = True"
| "is_open ev = False"

definition written :: "world \<Rightarrow> event list" where
  "written w = filter is_write (trace w)"

definition opened :: "world \<Rightarrow> event list" where
  "opened w = filter is_open (trace w)"

section \<open>Reading the trace of a run\<close>

text \<open>
  An event is quiet when nothing went wrong in it: a command that exited with status 0, a
  file that could be opened, a target written. A message logged is never quiet: the
  program only logs errors.
\<close>

fun quiet :: "event \<Rightarrow> bool" where
  "quiet (Called cmd (Exit code)) = (code = 0)"
| "quiet (Called cmd (No_start e)) = False"
| "quiet (Logged msg) = False"
| "quiet (Opened p r) = (r = None)"
| "quiet (Misread p) = False"
| "quiet (Wrote p c) = True"

text \<open>
  The ways the run of a task can end, with the events it adds to the trace: it returns
  after quiet events only; or, after quiet events, a command exits with a nonzero status,
  or cannot be started, or (in \<^verbatim>\<open>Import_Data\<close>) the manifest is missing, cannot be
  opened or cannot be decoded, and the error message is the last event.
\<close>

inductive fate :: "platform \<Rightarrow> config \<Rightarrow> task \<Rightarrow> unit outcome \<Rightarrow> event list \<Rightarrow> bool"
  for pf :: platform and cfg :: config where
  returned:
    "list_all quiet evs \<Longrightarrow> fate pf cfg t (Val ()) evs"
| command_failed:
    "list_all quiet pre \<Longrightarrow> code \<noteq> 0 \<Longrightarrow>
     fate pf cfg t (Raise (SystemExit 1))
       (pre @ [Called cmd (Exit code),
               Logged (''In '' @ str_task pf cfg t @ '' following error occured'' @ nl
                       @ str_exn pf (CalledProcessError code cmd out))])"
| not_started:
    "list_all quiet pre \<Longrightarrow>
     fate pf cfg t (Raise (OSError e))
       (pre @ [Called cmd (No_start e),
               Logged (''In '' @ str_task pf cfg t @ '' unknown error occured'' @ nl
                       @ str_exn pf (OSError e))])"
| input_missing:
    "list_all quiet pre \<Longrightarrow>
     fate pf cfg Import_Data (Raise (SystemExit 1))
       (pre @ [Opened (manifest_file cfg) (Some ENOENT),
               Logged ''Input file for qiime tools import does not exist...''])"
| input_unreadable:
    "list_all quiet pre \<Longrightarrow> e \<noteq> ENOENT \<Longrightarrow>
     fate pf cfg Import_Data (Raise (OSError e))
       (pre @ [Opened (manifest_file cfg) (Some e),
               Logged (''In Import_Data() following error occured'' @ nl
                       @ str_exn pf (OSError e))])"
| input_undecodable:
    "list_all quiet pre \<Longrightarrow>
     fate pf cfg Import_Data (Raise UnicodeDecodeError)
       (pre @ [Misread (manifest_file cfg),
               Logged (''In Import_Data() following error occured'' @ nl
                       @ str_exn pf UnicodeDecodeError)])"

text \<open>Whether a text occurs in a message.\<close>

fun mentions :: "string \<Rightarrow> string \<Rightarrow> bool" where
  "mentions sub [] = (sub = [])"
| "mentions sub (c # cs) = (take (length sub) (c # cs) = sub \<or> mentions sub cs)"

text \<open>
  The tasks in layers: every task lies above the tasks it requires, so the pipeline has no
  cycle.
\<close>

fun layer :: "task \<Rightarrow> nat" where
  "layer Import_Data = 0"
| "layer Summarize = 1"
| "layer Denoise = 1"
| "layer Denoise_Tabulate = 2"
| "layer Taxonomic_Classification = 2"
| "layer Taxonomy_Tabulate = 3"
| "layer Export_Feature_Table = 2"
| "layer Export_Taxonomy = 3"
| "layer Export_Representative_Seqs = 2"
| "layer Convert_Biom_to_TSV = 3"
| "layer Generate_Combined_Feature_Table = 4"
| "layer Run_All = 5"

text \<open>A platform on which no command ever changes the path \<open>p\<close>.\<close>

definition untouched :: "platform \<Rightarrow> string \<Rightarrow> bool" where
  "untouched pf p \<longleftrightarrow>
     (\<forall>c fs code out err fs'. spawn pf c fs = Exited code out err fs' \<longrightarrow> fs' p = fs p)"

section \<open>More machines and worlds for the examples\<close>

text \<open>A machine on which every command exits with status 127 and changes nothing.\<close>

definition broken :: platform where
  "broken = \<lparr>spawn = (\<lambda>c fs. Exited 127 [] ''command not found'' fs),
             str_exn = lab_str_exn, str_task = (\<lambda>cfg t. task_name t @ ''()''),
             decodes = ascii\<rparr>"

text \<open>
  Worlds: one where the manifest is present and may not be read, one where it holds two
  bytes that are no text, one where \<^verbatim>\<open>Import_Data\<close> has already produced its output, one
  where \<^verbatim>\<open>Denoise\<close> has.
\<close>

definition locked :: world where
  "locked = \<lparr>files = [''manifest.txt'' \<mapsto> Locked], trace = []\<rparr>"

definition garbled :: world where
  "garbled = \<lparr>files = [''manifest.txt'' \<mapsto> Data [CHR 0xFF, CHR 0xFE]], trace = []\<rparr>"

definition imported :: world where
  "imported = \<lparr>files = [''out/paired-end-demux.qza'' \<mapsto> Data ''artifact''], trace = []\<rparr>"

definition denoised :: world where
  "denoised =
     \<lparr>files = [''out/paired-end-demux.qza'' \<mapsto> Data ''artifact'',
               ''out/dada2/dada2-table.qza'' \<mapsto> Data ''artifact'',
               ''out/dada2/dada2-rep-seqs.qza'' \<mapsto> Data ''artifact'',
               ''out/dada2/stats-dada2.qza'' \<mapsto> Data ''artifact'',
               ''out/dada2/dada2_log.txt'' \<mapsto> Data ''Saved''],
      trace = []\<rparr>"

section \<open>Reading the history of a resolution\<close>

text \<open>
  An invoked run is settled when it returned and left its node complete. A history is a
  replay from a world when each of its runs was invoked on a node incomplete in the world
  the run before it left, and ended as recorded. \<open>final\<close> is the world the last run left.
\<close>

fun settled :: "('n, 'w) engine \<Rightarrow> 'n \<times> unit outcome \<times> 'w \<Rightarrow> bool" where
  "settled g (n, Val u, w) = is_complete g n w"
| "settled g (n, Raise e, w) = False"

fun replay :: "('n, 'w) engine \<Rightarrow> 'w \<Rightarrow> ('n \<times> unit outcome \<times> 'w) list \<Rightarrow> bool" where
  "replay g w [] = True"
| "replay g w ((n, r, w') # hs) =
     (\<not> is_complete g n w \<and> run_node g n w = (r, w') \<and> replay g w' hs)"

fun final :: "'w \<Rightarrow> ('n \<times> unit outcome \<times> 'w) list \<Rightarrow> 'w" where
  "final w [] = w"
| "final w ((n, r, w') # hs) = final w' hs"

text \<open>
  How the result of a resolution and the runs it invoked go together: when it returns,
  every run is settled; when it fails, either no run failed and the scheduler met a cycle,
  or every run but the last is settled and the last one raised the failure, or returned
  leaving its node incomplete.
\<close>

definition verdict :: "('n, 'w) engine \<Rightarrow> unit outcome \<Rightarrow> ('n \<times> unit outcome \<times> 'w) list \<Rightarrow> bool" where
  "verdict g res hs \<longleftrightarrow>
     (case res of
        Val u \<Rightarrow> list_all (settled g) hs
      | Raise e \<Rightarrow>
          (e = CyclicDependency \<and> list_all (settled g) hs)
        \<or> (\<exists>pre n r w. hs = pre @ [(n, r, w)] \<and> list_all (settled g) pre
              \<and> (r = Raise e \<or> (r = Val () \<and> \<not> is_complete g n w \<and> e = IncompleteOutput))))"

text \<open>A set of nodes that holds the dependencies of each of its nodes.\<close>

definition closed :: "('n, 'w) engine \<Rightarrow> 'n set \<Rightarrow> bool" where
  "closed g R \<longleftrightarrow> (\<forall>m \<in> R. set (dependencies g m) \<subseteq> R)"

text \<open>\<open>(a, b)\<close> is in \<open>needs g\<close> when \<open>b\<close> is a dependency of \<open>a\<close>.\<close>

definition needs :: "('n, 'w) engine \<Rightarrow> ('n \<times> 'n) set" where
  "needs g = {(a, b). b \<in> set (dependencies g a)}"

text \<open>
  What a resolution from \<open>s\<close> to \<open>s'\<close> with result \<open>res\<close> did: the runs it added to the
  history are a replay from the world of \<open>s\<close>, the world of \<open>s'\<close> is the one the last of
  them left, and the result goes with them as \<open>verdict\<close> says.
\<close>

definition story :: "('n, 'w) engine \<Rightarrow> ('n, 'w) sched \<Rightarrow> unit outcome \<Rightarrow> ('n, 'w) sched \<Rightarrow> bool" where
  "story g s res s' \<longleftrightarrow>
     (\<exists>hs. invoked s' = invoked s @ hs \<and> replay g (world_of s) hs
          \<and> world_of s' = final (world_of s) hs \<and> verdict g res hs)"

section \<open>Properties of \<^verbatim>\<open>run_cmd\<close>\<close>

lemma run_cmd_cases:
  assumes "run_cmd pf cmd step w = (r, w')"
  obtains
    (ok) out err fs' where
      "spawn pf cmd (files w) = Exited 0 out err fs'" "r = Val out"
      "w' = \<lparr>files = fs', trace = trace w @ [Called cmd (Exit 0)]\<rparr>"
  | (failed) code out err fs' where
      "spawn pf cmd (files w) = Exited code out err fs'" "code \<noteq> 0"
      "r = Raise (SystemExit 1)"
      "w' = \<lparr>files = fs',
             trace = trace w @ [Called cmd (Exit code),
               Logged (''In '' @ step @ '' following error occured'' @ nl
                       @ str_exn pf (CalledProcessError code cmd out))]\<rparr>"
  | (not_started) e where
      "spawn pf cmd (files w) = Not_started e" "r = Raise (OSError e)"
      "w' = \<lparr>files = files w,
             trace = trace w @ [Called cmd (No_start e),
               Logged (''In '' @ step @ '' unknown error occured'' @ nl
                       @ str_exn pf (OSError e))]\<rparr>"
  using assms
  by (cases "spawn pf cmd (files w)")
     (auto simp: run_cmd_def check_output_def logger_error_def split: if_splits)

text \<open>
  C3, as the code has it. When the child exits with status 0, \<open>run_cmd\<close> returns the
  captured output. When it exits with another status, \<open>run_cmd\<close> does not hand a failure
  with the command, the status and the standard error to its caller: it logs one message,
  made of the step and of Python's text of the \<open>CalledProcessError\<close> (which holds the
  status, the command and the captured standard output; what the child wrote to standard
  error, \<open>err\<close>, is in neither), and raises \<open>SystemExit 1\<close>. \<open>check_output\<close> is called
  once in both cases: nothing is retried.
\<close>

theorem run_cmd_exit_status:
  assumes "spawn pf cmd (files w) = Exited code out err fs'"
  shows "run_cmd pf cmd step w =
           (if code = 0
            then (Val out, \<lparr>files = fs', trace = trace w @ [Called cmd (Exit 0)]\<rparr>)
            else (Raise (SystemExit 1),
                  \<lparr>files = fs',
                   trace = trace w @ [Called cmd (Exit code),
                     Logged (''In '' @ step @ '' following error occured'' @ nl
                             @ str_exn pf (CalledProcessError code cmd out))]\<rparr>))"
  using assms by (simp add: run_cmd_def check_output_def logger_error_def)

theorem run_cmd_exit_status_witness:
  "spawn lab [''mkdir'', ''-p'', ''out''] (files bare) = Exited 0 [] [] [''out'' \<mapsto> Folder]
   \<and> run_cmd lab [''mkdir'', ''-p'', ''out''] ''Denoise()'' bare =
       (Val [], \<lparr>files = [''out'' \<mapsto> Folder],
                 trace = [Called [''mkdir'', ''-p'', ''out''] (Exit 0)]\<rparr>)
   \<and> spawn lab [''qiime'', ''--i-data'', ''absent.qza''] (files bare)
       = Exited 1 [] ''There was a problem with the command'' Map.empty
   \<and> run_cmd lab [''qiime'', ''--i-data'', ''absent.qza''] ''Summarize()'' bare =
       (Raise (SystemExit 1),
        \<lparr>files = Map.empty,
         trace = [Called [''qiime'', ''--i-data'', ''absent.qza''] (Exit 1),
                  Logged (''In Summarize() following error occured'' @ nl
                          @ ''Command returned non-zero exit status'')]\<rparr>)"
proof -
  have h: "spawn lab [''mkdir'', ''-p'', ''out''] (files bare) = Exited 0 [] [] [''out'' \<mapsto> Folder]"
    by (simp add: lab_def lab_spawn_def bare_def)
  have k: "spawn lab [''qiime'', ''--i-data'', ''absent.qza''] (files bare)
             = Exited 1 [] ''There was a problem with the command'' Map.empty"
    by (simp add: lab_def lab_spawn_def bare_def input_options_def)
  show ?thesis
    using h k run_cmd_exit_status [OF h, of "''Denoise()''"]
          run_cmd_exit_status [OF k, of "''Summarize()''"]
    by (simp add: bare_def lab_def)
qed

text \<open>
  C3 as stated fails: on this machine \<^verbatim>\<open>mkdir\<close> without an operand exits with status 1
  and writes \<^verbatim>\<open>mkdir: missing operand\<close> to standard error. What the caller of \<open>run_cmd\<close>
  gets is \<open>SystemExit 1\<close>, and the text written to standard error is nowhere in what is
  left.
\<close>

theorem run_cmd_failure_counterexample:
  "spawn lab [''mkdir''] (files bare) = Exited 1 [] ''mkdir: missing operand'' Map.empty
   \<and> run_cmd lab [''mkdir''] ''Denoise()'' bare =
       (Raise (SystemExit 1),
        \<lparr>files = Map.empty,
         trace = [Called [''mkdir''] (Exit 1),
                  Logged (''In Denoise() following error occured'' @ nl
                          @ ''Command returned non-zero exit status'')]\<rparr>)"
  by (simp add: run_cmd_def check_output_def logger_error_def lab_def lab_spawn_def bare_def)

text \<open>
  C8. When the program of a command cannot be started, \<open>run_cmd\<close> logs the error and
  raises that same error again: the caller gets the operating system's error itself, not
  a \<open>SystemExit\<close> and not a normal return.
\<close>

theorem run_cmd_launch_error:
  assumes "spawn pf cmd (files w) = Not_started e"
  shows "run_cmd pf cmd step w =
           (Raise (OSError e),
            \<lparr>files = files w,
             trace = trace w @ [Called cmd (No_start e),
               Logged (''In '' @ step @ '' unknown error occured'' @ nl
                       @ str_exn pf (OSError e))]\<rparr>)"
  using assms by (simp add: run_cmd_def check_output_def logger_error_def)

theorem run_cmd_launch_error_witness:
  "spawn lab [''biom'', ''convert''] (files bare) = Not_started ENOENT
   \<and> run_cmd lab [''biom'', ''convert''] ''Convert_Biom_to_TSV()'' bare =
       (Raise (OSError ENOENT),
        \<lparr>files = Map.empty,
         trace = [Called [''biom'', ''convert''] (No_start ENOENT),
                  Logged (''In Convert_Biom_to_TSV() unknown error occured'' @ nl
                          @ ''No such file or directory'')]\<rparr>)"
proof -
  have h: "spawn lab [''biom'', ''convert''] (files bare) = Not_started ENOENT"
    by (simp add: lab_def lab_spawn_def)
  show ?thesis
    using h run_cmd_launch_error [OF h, of "''Convert_Biom_to_TSV()''"]
    by (simp add: bare_def lab_def)
qed

section \<open>Properties of the declared outputs\<close>

text \<open>
  C7. The targets a task declares are computed from the configuration alone, without the
  world as argument or result, and of the configuration only the output prefix matters:
  two configurations with the same prefix declare the same targets for every task.
\<close>

theorem output_depends_on_prefix_only:
  assumes "prefix cfg = prefix cfg'"
  shows "output cfg t = output cfg' t"
  using assms
  by (cases t) (simp_all add: out_dir_def denoise_dir_def taxonomy_dir_def export_dir_def)

theorem output_depends_on_prefix_only_witness:
  "prefix (defaults ''out'' ''a.txt'' ''x.qza'') = prefix (defaults ''out'' ''b.txt'' ''y.qza'')
   \<and> output (defaults ''out'' ''a.txt'' ''x.qza'') Denoise
     = output (defaults ''out'' ''b.txt'' ''y.qza'') Denoise"
proof -
  have h: "prefix (defaults ''out'' ''a.txt'' ''x.qza'') = prefix (defaults ''out'' ''b.txt'' ''y.qza'')"
    by (simp add: defaults_def)
  show ?thesis
    using h output_depends_on_prefix_only [OF h, of Denoise] by simp
qed

lemma exists_iff:
  "exists w t \<longleftrightarrow> (\<exists>c. files w (path t) = Some (Data c) \<and> c \<noteq> [])"
proof (cases "files w (path t)")
  case None
  then show ?thesis by (simp add: exists_def)
next
  case (Some en)
  then show ?thesis by (cases en) (simp_all add: exists_def)
qed

text \<open>
  C6. A target exists exactly when its path holds a readable file that is not empty, and a
  task is complete exactly when that is so of every target it declares: what the file
  holds beyond being non-empty plays no part.
\<close>

theorem exists_iff_nonempty_readable_file:
  "(exists w t \<longleftrightarrow> (\<exists>c. files w (path t) = Some (Data c) \<and> c \<noteq> []))
   \<and> (complete cfg n w \<longleftrightarrow>
        (\<forall>t \<in> set (flatten (output cfg n)). \<exists>c. files w (path t) = Some (Data c) \<and> c \<noteq> []))"
  by (simp add: complete_def list_all_iff exists_iff)

theorem exists_iff_nonempty_readable_file_witness:
  "exists \<lparr>files = [''out/paired-end-demux.qza'' \<mapsto> Data ''artifact''], trace = []\<rparr>
          (LocalTarget ''out/paired-end-demux.qza'' Default)
   \<and> complete lab_config Import_Data
        \<lparr>files = [''out/paired-end-demux.qza'' \<mapsto> Data ''artifact''], trace = []\<rparr>
   \<and> \<not> complete lab_config Import_Data
        \<lparr>files = [''out/paired-end-demux.qza'' \<mapsto> Data []], trace = []\<rparr>"
  using exists_iff_nonempty_readable_file
          [of "\<lparr>files = [''out/paired-end-demux.qza'' \<mapsto> Data ''artifact''], trace = []\<rparr>"
              "LocalTarget ''out/paired-end-demux.qza'' Default" lab_config Import_Data]
        exists_iff_nonempty_readable_file
          [of "\<lparr>files = [''out/paired-end-demux.qza'' \<mapsto> Data []], trace = []\<rparr>"
              "LocalTarget ''out/paired-end-demux.qza'' Default" lab_config Import_Data]
  by (simp add: lab_config_def defaults_def out_dir_def path_join_def)

section \<open>Properties of the run methods\<close>

lemma run_cmd_zero:
  "spawn pf cmd (files w) = Exited 0 out err fs' \<Longrightarrow>
   run_cmd pf cmd step w = (Val out, \<lparr>files = fs', trace = trace w @ [Called cmd (Exit 0)]\<rparr>)"
  by (simp add: run_cmd_def check_output_def)

lemma run_cmd_nonzero:
  "spawn pf cmd (files w) = Exited code out err fs' \<Longrightarrow> code \<noteq> 0 \<Longrightarrow>
   run_cmd pf cmd step w =
     (Raise (SystemExit 1),
      \<lparr>files = fs',
       trace = trace w @ [Called cmd (Exit code),
         Logged (''In '' @ step @ '' following error occured'' @ nl
                 @ str_exn pf (CalledProcessError code cmd out))]\<rparr>)"
  by (simp add: run_cmd_def check_output_def logger_error_def)

lemma run_cmd_written: "run_cmd pf cmd step w = (r, w') \<Longrightarrow> written w' = written w"
  by (erule run_cmd_cases) (simp_all add: written_def)

lemma run_cmd_untouched:
  "run_cmd pf cmd step w = (r, w') \<Longrightarrow> untouched pf p \<Longrightarrow> files w' p = files w p"
  by (erule run_cmd_cases) (auto simp: untouched_def)

lemmas run_simps = seq_def the_path_def key_path_def lift_def ret_def input_def Let_def

lemmas log_runs = Denoise_run_def Taxonomic_Classification_run_def
  Generate_Combined_Feature_Table_run_def

lemmas plain_runs = Summarize_run_def Denoise_Tabulate_run_def Taxonomy_Tabulate_run_def
  Export_Feature_Table_run_def Export_Taxonomy_run_def Export_Representative_Seqs_run_def
  Convert_Biom_to_TSV_run_def

subsection \<open>The log of a task\<close>

lemma log_run_failed:
  assumes "t \<in> {Denoise, Taxonomic_Classification, Generate_Combined_Feature_Table}"
    and "task_run pf cfg t w = (Raise e, w')"
  shows "written w' = written w"
  using assms
  by (auto simp: log_runs run_simps write_target_def split: prod.splits outcome.splits
           dest!: run_cmd_written)

lemma log_run_failed_files:
  assumes "t \<in> {Denoise, Taxonomic_Classification, Generate_Combined_Feature_Table}"
    and "task_run pf cfg t w = (Raise e, w')" and "untouched pf p"
  shows "files w' p = files w p"
proof -
  have kept: "\<And>cmd step v r v'. run_cmd pf cmd step v = (r, v') \<Longrightarrow> files v' p = files v p"
    using assms(3) by (rule run_cmd_untouched [rotated])
  show ?thesis
    using assms(1,2)
    by (auto simp: log_runs run_simps write_target_def split: prod.splits outcome.splits
             dest!: kept)
qed

lemma log_run_done:
  assumes "t \<in> {Denoise, Taxonomic_Classification, Generate_Combined_Feature_Table}"
    and "task_run pf cfg t w = (Val u, w')"
  shows "\<exists>lg mk cmd out o1 e1 fs1 e2 fs2.
           item_target (output cfg t) ''log'' = Val lg
         \<and> trace w' = trace w @ [Called mk (Exit 0), Called cmd (Exit 0), Wrote (path lg) out]
         \<and> spawn pf mk (files w) = Exited 0 o1 e1 fs1
         \<and> spawn pf cmd fs1 = Exited 0 out e2 fs2
         \<and> files w' = fs2(path lg \<mapsto> Data out)"
  using assms
  by (auto simp: log_runs run_simps write_target_def split: prod.splits outcome.splits
           elim!: run_cmd_cases)

text \<open>
  C9. For \<^verbatim>\<open>Denoise\<close>, \<^verbatim>\<open>Taxonomic_Classification\<close> and
  \<^verbatim>\<open>Generate_Combined_Feature_Table\<close>: a run that returns has called \<^verbatim>\<open>mkdir\<close> and the
  main command, both ending with status 0, and only then written the log target, with the
  output captured from the main command. A run that fails has written no target at all,
  and a path that no command of the platform changes (the log path, say) holds after the
  failed run what it held before.
\<close>

theorem log_written_only_after_success:
  assumes "t \<in> {Denoise, Taxonomic_Classification, Generate_Combined_Feature_Table}"
    and "task_run pf cfg t w = (r, w')"
  shows "case r of
           Val u \<Rightarrow>
             (\<exists>lg mk cmd out o1 e1 fs1 e2 fs2.
                 item_target (output cfg t) ''log'' = Val lg
               \<and> trace w' = trace w @ [Called mk (Exit 0), Called cmd (Exit 0), Wrote (path lg) out]
               \<and> spawn pf mk (files w) = Exited 0 o1 e1 fs1
               \<and> spawn pf cmd fs1 = Exited 0 out e2 fs2
               \<and> files w' = fs2(path lg \<mapsto> Data out))
         | Raise e \<Rightarrow>
             written w' = written w \<and> (\<forall>p. untouched pf p \<longrightarrow> files w' p = files w p)"
proof (cases r)
  case (Val u)
  then show ?thesis
    using log_run_done [OF assms(1), of pf cfg w u w'] assms(2) by simp
next
  case (Raise e)
  then show ?thesis
    using log_run_failed [OF assms(1), of pf cfg w e w']
          log_run_failed_files [OF assms(1), of pf cfg w e w'] assms(2) by simp
qed

theorem log_written_only_after_success_witness:
  "Denoise \<in> {Denoise, Taxonomic_Classification, Generate_Combined_Feature_Table}
   \<and> fst (task_run broken lab_config Denoise fresh) = Raise (SystemExit 1)
   \<and> written (snd (task_run broken lab_config Denoise fresh)) = written fresh
   \<and> untouched broken ''out/dada2/dada2_log.txt''
   \<and> files (snd (task_run broken lab_config Denoise fresh)) ''out/dada2/dada2_log.txt'' = None
   \<and> fst (task_run lab lab_config Denoise imported) = Val ()
   \<and> (\<exists>mk cmd out. trace (snd (task_run lab lab_config Denoise imported)) =
         [Called mk (Exit 0), Called cmd (Exit 0), Wrote ''out/dada2/dada2_log.txt'' out])"
proof -
  have m: "Denoise \<in> {Denoise, Taxonomic_Classification, Generate_Combined_Feature_Table}"
    by simp
  have r: "fst (task_run broken lab_config Denoise fresh) = Raise (SystemExit 1)"
    by (simp add: Denoise_run_def run_simps run_cmd_def check_output_def broken_def
                  logger_error_def)
  have u: "untouched broken ''out/dada2/dada2_log.txt''"
    by (simp add: untouched_def broken_def)
  have f: "files fresh ''out/dada2/dada2_log.txt'' = None"
    by (simp add: fresh_def)
  have v: "fst (task_run lab lab_config Denoise imported) = Val ()"
    by (simp add: Denoise_run_def run_simps run_cmd_def check_output_def lab_def lab_spawn_def
                  imported_def lab_config_def defaults_def out_dir_def denoise_dir_def
                  path_join_def input_options_def output_options_def write_target_def)
  have p: "item_target (output lab_config Denoise) ''log''
             = Val (LocalTarget ''out/dada2/dada2_log.txt'' Nop)"
    by (simp add: lab_config_def defaults_def out_dir_def denoise_dir_def path_join_def)
  have t: "trace imported = []"
    by (simp add: imported_def)
  show ?thesis
    using m r u f v p t
          log_written_only_after_success
            [OF m surjective_pairing [of "task_run broken lab_config Denoise fresh"]]
          log_written_only_after_success
            [OF m surjective_pairing [of "task_run lab lab_config Denoise imported"]]
    by auto
qed

subsection \<open>Who checks an input file\<close>

lemma no_open_elsewhere:
  assumes "t \<noteq> Import_Data"
  shows "opened (snd (task_run pf cfg t w)) = opened w"
  using assms
  by (cases t)
     (auto simp: plain_runs log_runs run_simps write_target_def opened_def
           split: prod.splits outcome.splits elim!: run_cmd_cases)

lemma import_missing_manifest:
  assumes "spawn pf [''mkdir'', ''-p'', out_dir cfg] (files w) = Exited 0 o1 e1 fs1"
    and "fs1 (manifest_file cfg) = None"
  shows "task_run pf cfg Import_Data w =
           (Raise (SystemExit 1),
            \<lparr>files = fs1,
             trace = trace w @ [Called [''mkdir'', ''-p'', out_dir cfg] (Exit 0),
                                Opened (manifest_file cfg) (Some ENOENT),
                                Logged ''Input file for qiime tools import does not exist...'']\<rparr>)"
  using assms
  by (simp add: Import_Data_run_def run_simps run_cmd_zero check_input_def open_read_def
                logger_error_def)

lemma import_unreadable_manifest:
  assumes "spawn pf [''mkdir'', ''-p'', out_dir cfg] (files w) = Exited 0 o1 e1 fs1"
    and "fs1 (manifest_file cfg) = Some en" and "\<forall>c. en \<noteq> Data c"
  shows "\<exists>e. e \<noteq> ENOENT \<and> task_run pf cfg Import_Data w =
           (Raise (OSError e),
            \<lparr>files = fs1,
             trace = trace w @ [Called [''mkdir'', ''-p'', out_dir cfg] (Exit 0),
                                Opened (manifest_file cfg) (Some e),
                                Logged (''In Import_Data() following error occured'' @ nl
                                        @ str_exn pf (OSError e))]\<rparr>)"
  using assms
  by (cases en)
     (simp_all add: Import_Data_run_def run_simps run_cmd_zero check_input_def open_read_def
                logger_error_def)

lemma import_undecodable_manifest:
  assumes "spawn pf [''mkdir'', ''-p'', out_dir cfg] (files w) = Exited 0 o1 e1 fs1"
    and "fs1 (manifest_file cfg) = Some (Data c)" and "\<not> decodes pf c"
  shows "task_run pf cfg Import_Data w =
           (Raise UnicodeDecodeError,
            \<lparr>files = fs1,
             trace = trace w @ [Called [''mkdir'', ''-p'', out_dir cfg] (Exit 0),
                                Opened (manifest_file cfg) None,
                                Misread (manifest_file cfg),
                                Logged (''In Import_Data() following error occured'' @ nl
                                        @ str_exn pf UnicodeDecodeError)]\<rparr>)"
  using assms
  by (simp add: Import_Data_run_def run_simps run_cmd_zero check_input_def open_read_def
                logger_error_def)

lemma import_readable_manifest:
  assumes "spawn pf [''mkdir'', ''-p'', out_dir cfg] (files w) = Exited 0 o1 e1 fs1"
    and "fs1 (manifest_file cfg) = Some (Data c)" and "decodes pf c"
  shows "\<exists>st rest. trace (snd (task_run pf cfg Import_Data w)) =
           trace w @ Called [''mkdir'', ''-p'', out_dir cfg] (Exit 0)
                   # Opened (manifest_file cfg) None
                   # Called [''qiime'', ''tools'', ''import'',
                             ''--type'', sample_type cfg,
                             ''--input-path'', manifest_file cfg,
                             ''--output-path'', path_join (out_dir cfg) ''paired-end-demux.qza'',
                             ''--input-format'', input_format cfg] st
                   # rest"
  using assms
  by (auto simp: Import_Data_run_def run_simps run_cmd_zero check_input_def open_read_def
                logger_error_def split: prod.splits outcome.splits elim!: run_cmd_cases)

lemma classify_failed:
  assumes "spawn pf [''mkdir'', ''-p'', taxonomy_dir cfg] (files w) = Exited 0 o1 e1 fs1"
    and "spawn pf [''qiime'', ''feature-classifier'', ''classify-sklearn'',
                   ''--i-classifier'', classifier cfg,
                   ''--i-reads'', path_join (denoise_dir cfg) ''dada2-rep-seqs.qza'',
                   ''--o-classification'', path_join (taxonomy_dir cfg) ''taxonomy.qza'',
                   ''--p-n-jobs'', n_jobs cfg,
                   ''--verbose''] fs1 = Exited code out err fs2"
    and "code \<noteq> 0"
  shows "task_run pf cfg Taxonomic_Classification w =
           (Raise (SystemExit 1),
            \<lparr>files = fs2,
             trace = trace w @
               [Called [''mkdir'', ''-p'', taxonomy_dir cfg] (Exit 0),
                Called [''qiime'', ''feature-classifier'', ''classify-sklearn'',
                        ''--i-classifier'', classifier cfg,
                        ''--i-reads'', path_join (denoise_dir cfg) ''dada2-rep-seqs.qza'',
                        ''--o-classification'', path_join (taxonomy_dir cfg) ''taxonomy.qza'',
                        ''--p-n-jobs'', n_jobs cfg,
                        ''--verbose''] (Exit code),
                Logged (''In '' @ str_task pf cfg Taxonomic_Classification
                        @ '' following error occured'' @ nl
                        @ str_exn pf (CalledProcessError code
                            [''qiime'', ''feature-classifier'', ''classify-sklearn'',
                             ''--i-classifier'', classifier cfg,
                             ''--i-reads'', path_join (denoise_dir cfg) ''dada2-rep-seqs.qza'',
                             ''--o-classification'', path_join (taxonomy_dir cfg) ''taxonomy.qza'',
                             ''--p-n-jobs'', n_jobs cfg,
                             ''--verbose''] out))]\<rparr>)"
  using assms
  by (simp add: Taxonomic_Classification_run_def run_simps run_cmd_zero run_cmd_nonzero)

lemma lab_mkdir: "spawn lab [''mkdir'', ''-p'', d] fs = Exited 0 [] [] (fs(d \<mapsto> Folder))"
  by (simp add: lab_def lab_spawn_def)

lemmas lab_paths = lab_config_def defaults_def out_dir_def denoise_dir_def taxonomy_dir_def
  export_dir_def path_join_def

text \<open>
  C10. \<^verbatim>\<open>Import_Data.run\<close> opens the manifest after its \<^verbatim>\<open>mkdir\<close> and before its
  \<^verbatim>\<open>qiime tools import\<close>: with the manifest absent it logs a fixed message and raises
  \<open>SystemExit 1\<close>; with the manifest present and not to be opened, or opened and holding
  bytes that do not decode, it logs and raises the error again; in all three cases the
  import command is never called; with a manifest that opens and decodes, the import
  command is the next thing called. No other task opens or reads any file.
  \<^verbatim>\<open>Taxonomic_Classification.run\<close> hands the classifier path to \<^verbatim>\<open>qiime\<close> as it is, whatever the file system holds, and a nonzero exit of that command (which is how a
  missing classifier shows) ends the run as every failed command does: the message of
  \<open>run_cmd\<close> and \<open>SystemExit 1\<close>.
\<close>

theorem only_Import_Data_checks_its_input:
  "(spawn pf [''mkdir'', ''-p'', out_dir cfg] (files w) = Exited 0 o1 e1 fs1
      \<and> fs1 (manifest_file cfg) = None \<longrightarrow>
    task_run pf cfg Import_Data w =
      (Raise (SystemExit 1),
       \<lparr>files = fs1,
        trace = trace w @ [Called [''mkdir'', ''-p'', out_dir cfg] (Exit 0),
                           Opened (manifest_file cfg) (Some ENOENT),
                           Logged ''Input file for qiime tools import does not exist...'']\<rparr>))
 \<and> (spawn pf [''mkdir'', ''-p'', out_dir cfg] (files w) = Exited 0 o1 e1 fs1
      \<and> fs1 (manifest_file cfg) = Some en \<and> (\<forall>c. en \<noteq> Data c) \<longrightarrow>
    (\<exists>e. e \<noteq> ENOENT \<and> task_run pf cfg Import_Data w =
       (Raise (OSError e),
        \<lparr>files = fs1,
         trace = trace w @ [Called [''mkdir'', ''-p'', out_dir cfg] (Exit 0),
                            Opened (manifest_file cfg) (Some e),
                            Logged (''In Import_Data() following error occured'' @ nl
                                    @ str_exn pf (OSError e))]\<rparr>)))
 \<and> (spawn pf [''mkdir'', ''-p'', out_dir cfg] (files w) = Exited 0 o1 e1 fs1
      \<and> fs1 (manifest_file cfg) = Some (Data c) \<and> \<not> decodes pf c \<longrightarrow>
    task_run pf cfg Import_Data w =
      (Raise UnicodeDecodeError,
       \<lparr>files = fs1,
        trace = trace w @ [Called [''mkdir'', ''-p'', out_dir cfg] (Exit 0),
                           Opened (manifest_file cfg) None,
                           Misread (manifest_file cfg),
                           Logged (''In Import_Data() following error occured'' @ nl
                                   @ str_exn pf UnicodeDecodeError)]\<rparr>))
 \<and> (spawn pf [''mkdir'', ''-p'', out_dir cfg] (files w) = Exited 0 o1 e1 fs1
      \<and> fs1 (manifest_file cfg) = Some (Data c) \<and> decodes pf c \<longrightarrow>
    (\<exists>st rest. trace (snd (task_run pf cfg Import_Data w)) =
       trace w @ Called [''mkdir'', ''-p'', out_dir cfg] (Exit 0)
               # Opened (manifest_file cfg) None
               # Called [''qiime'', ''tools'', ''import'',
                         ''--type'', sample_type cfg,
                         ''--input-path'', manifest_file cfg,
                         ''--output-path'', path_join (out_dir cfg) ''paired-end-demux.qza'',
                         ''--input-format'', input_format cfg] st
               # rest))
 \<and> (t \<noteq> Import_Data \<longrightarrow> opened (snd (task_run pf cfg t w)) = opened w)
 \<and> (let cmd = [''qiime'', ''feature-classifier'', ''classify-sklearn'',
                ''--i-classifier'', classifier cfg,
                ''--i-reads'', path_join (denoise_dir cfg) ''dada2-rep-seqs.qza'',
                ''--o-classification'', path_join (taxonomy_dir cfg) ''taxonomy.qza'',
                ''--p-n-jobs'', n_jobs cfg,
                ''--verbose'']
     in spawn pf [''mkdir'', ''-p'', taxonomy_dir cfg] (files w) = Exited 0 o2 e2 fs2
        \<and> spawn pf cmd fs2 = Exited code out err fs3 \<and> code \<noteq> 0 \<longrightarrow>
        task_run pf cfg Taxonomic_Classification w =
          (Raise (SystemExit 1),
           \<lparr>files = fs3,
            trace = trace w @
              [Called [''mkdir'', ''-p'', taxonomy_dir cfg] (Exit 0),
               Called cmd (Exit code),
               Logged (''In '' @ str_task pf cfg Taxonomic_Classification
                       @ '' following error occured'' @ nl
                       @ str_exn pf (CalledProcessError code cmd out))]\<rparr>))"
proof (intro conjI impI)
  assume "spawn pf [''mkdir'', ''-p'', out_dir cfg] (files w) = Exited 0 o1 e1 fs1
            \<and> fs1 (manifest_file cfg) = None"
  then show "task_run pf cfg Import_Data w =
      (Raise (SystemExit 1),
       \<lparr>files = fs1,
        trace = trace w @ [Called [''mkdir'', ''-p'', out_dir cfg] (Exit 0),
                           Opened (manifest_file cfg) (Some ENOENT),
                           Logged ''Input file for qiime tools import does not exist...'']\<rparr>)"
    using import_missing_manifest by blast
next
  assume "spawn pf [''mkdir'', ''-p'', out_dir cfg] (files w) = Exited 0 o1 e1 fs1
      \<and> fs1 (manifest_file cfg) = Some en \<and> (\<forall>c. en \<noteq> Data c)"
  then show "\<exists>e. e \<noteq> ENOENT \<and> task_run pf cfg Import_Data w =
       (Raise (OSError e),
        \<lparr>files = fs1,
         trace = trace w @ [Called [''mkdir'', ''-p'', out_dir cfg] (Exit 0),
                            Opened (manifest_file cfg) (Some e),
                            Logged (''In Import_Data() following error occured'' @ nl
                                    @ str_exn pf (OSError e))]\<rparr>)"
    using import_unreadable_manifest [of pf cfg w o1 e1 fs1 en] by blast
next
  assume "spawn pf [''mkdir'', ''-p'', out_dir cfg] (files w) = Exited 0 o1 e1 fs1
      \<and> fs1 (manifest_file cfg) = Some (Data c) \<and> \<not> decodes pf c"
  then show "task_run pf cfg Import_Data w =
      (Raise UnicodeDecodeError,
       \<lparr>files = fs1,
        trace = trace w @ [Called [''mkdir'', ''-p'', out_dir cfg] (Exit 0),
                           Opened (manifest_file cfg) None,
                           Misread (manifest_file cfg),
                           Logged (''In Import_Data() following error occured'' @ nl
                                   @ str_exn pf UnicodeDecodeError)]\<rparr>)"
    using import_undecodable_manifest by blast
next
  assume "spawn pf [''mkdir'', ''-p'', out_dir cfg] (files w) = Exited 0 o1 e1 fs1
      \<and> fs1 (manifest_file cfg) = Some (Data c) \<and> decodes pf c"
  then show "\<exists>st rest. trace (snd (task_run pf cfg Import_Data w)) =
       trace w @ Called [''mkdir'', ''-p'', out_dir cfg] (Exit 0)
               # Opened (manifest_file cfg) None
               # Called [''qiime'', ''tools'', ''import'',
                         ''--type'', sample_type cfg,
                         ''--input-path'', manifest_file cfg,
                         ''--output-path'', path_join (out_dir cfg) ''paired-end-demux.qza'',
                         ''--input-format'', input_format cfg] st
               # rest"
    using import_readable_manifest [of pf cfg w o1 e1 fs1 c] by blast
next
  assume "t \<noteq> Import_Data"
  then show "opened (snd (task_run pf cfg t w)) = opened w"
    by (rule no_open_elsewhere)
next
  show "let cmd = [''qiime'', ''feature-classifier'', ''classify-sklearn'',
                ''--i-classifier'', classifier cfg,
                ''--i-reads'', path_join (denoise_dir cfg) ''dada2-rep-seqs.qza'',
                ''--o-classification'', path_join (taxonomy_dir cfg) ''taxonomy.qza'',
                ''--p-n-jobs'', n_jobs cfg,
                ''--verbose'']
     in spawn pf [''mkdir'', ''-p'', taxonomy_dir cfg] (files w) = Exited 0 o2 e2 fs2
        \<and> spawn pf cmd fs2 = Exited code out err fs3 \<and> code \<noteq> 0 \<longrightarrow>
        task_run pf cfg Taxonomic_Classification w =
          (Raise (SystemExit 1),
           \<lparr>files = fs3,
            trace = trace w @
              [Called [''mkdir'', ''-p'', taxonomy_dir cfg] (Exit 0),
               Called cmd (Exit code),
               Logged (''In '' @ str_task pf cfg Taxonomic_Classification
                       @ '' following error occured'' @ nl
                       @ str_exn pf (CalledProcessError code cmd out))]\<rparr>)"
    unfolding Let_def using classify_failed [of pf cfg w o2 e2 fs2 code out err fs3] by blast
qed

theorem only_Import_Data_checks_its_input_witness:
  "task_run lab lab_config Import_Data bare =
     (Raise (SystemExit 1),
      \<lparr>files = [''out'' \<mapsto> Folder],
       trace = [Called [''mkdir'', ''-p'', ''out''] (Exit 0),
                Opened ''manifest.txt'' (Some ENOENT),
                Logged ''Input file for qiime tools import does not exist...'']\<rparr>)
 \<and> (\<exists>e. e \<noteq> ENOENT \<and> task_run lab lab_config Import_Data locked =
       (Raise (OSError e),
        \<lparr>files = [''manifest.txt'' \<mapsto> Locked, ''out'' \<mapsto> Folder],
         trace = [Called [''mkdir'', ''-p'', ''out''] (Exit 0),
                  Opened ''manifest.txt'' (Some e),
                  Logged (''In Import_Data() following error occured'' @ nl
                          @ ''No such file or directory'')]\<rparr>))
 \<and> task_run lab lab_config Import_Data garbled =
     (Raise UnicodeDecodeError,
      \<lparr>files = [''manifest.txt'' \<mapsto> Data [CHR 0xFF, CHR 0xFE], ''out'' \<mapsto> Folder],
       trace = [Called [''mkdir'', ''-p'', ''out''] (Exit 0),
                Opened ''manifest.txt'' None,
                Misread ''manifest.txt'',
                Logged (''In Import_Data() following error occured'' @ nl
                        @ ''codec can't decode byte'')]\<rparr>)
 \<and> (\<exists>st rest. trace (snd (task_run lab lab_config Import_Data fresh)) =
       Called [''mkdir'', ''-p'', ''out''] (Exit 0)
       # Opened ''manifest.txt'' None
       # Called [''qiime'', ''tools'', ''import'',
                 ''--type'', ''SampleData[PairedEndSequencesWithQuality]'',
                 ''--input-path'', ''manifest.txt'',
                 ''--output-path'', ''out/paired-end-demux.qza'',
                 ''--input-format'', ''PairedEndFastqManifestPhred33''] st
       # rest)
 \<and> Taxonomic_Classification \<noteq> Import_Data
 \<and> opened (snd (task_run lab lab_config Taxonomic_Classification denoised)) = []
 \<and> files denoised ''classifier.qza'' = None
 \<and> task_run lab lab_config Taxonomic_Classification denoised =
     (Raise (SystemExit 1),
      \<lparr>files = (files denoised)(''out/taxonomy'' \<mapsto> Folder),
       trace = [Called [''mkdir'', ''-p'', ''out/taxonomy''] (Exit 0),
                Called [''qiime'', ''feature-classifier'', ''classify-sklearn'',
                        ''--i-classifier'', ''classifier.qza'',
                        ''--i-reads'', ''out/dada2/dada2-rep-seqs.qza'',
                        ''--o-classification'', ''out/taxonomy/taxonomy.qza'',
                        ''--p-n-jobs'', ''10'',
                        ''--verbose''] (Exit 1),
                Logged (''In Taxonomic_Classification() following error occured'' @ nl
                        @ ''Command returned non-zero exit status'')]\<rparr>)"
proof -
  have a: "task_run lab lab_config Import_Data bare =
     (Raise (SystemExit 1),
      \<lparr>files = [''out'' \<mapsto> Folder],
       trace = [Called [''mkdir'', ''-p'', ''out''] (Exit 0),
                Opened ''manifest.txt'' (Some ENOENT),
                Logged ''Input file for qiime tools import does not exist...'']\<rparr>)"
    using only_Import_Data_checks_its_input
            [where pf = lab and cfg = lab_config and w = bare and ?o1.0 = "[]" and ?e1.0 = "[]"
               and ?fs1.0 = "[''out'' \<mapsto> Folder]", THEN conjunct1]
    by (simp add: lab_mkdir lab_paths bare_def)
  have b: "\<exists>e. e \<noteq> ENOENT \<and> task_run lab lab_config Import_Data locked =
       (Raise (OSError e),
        \<lparr>files = [''manifest.txt'' \<mapsto> Locked, ''out'' \<mapsto> Folder],
         trace = [Called [''mkdir'', ''-p'', ''out''] (Exit 0),
                  Opened ''manifest.txt'' (Some e),
                  Logged (''In Import_Data() following error occured'' @ nl
                          @ ''No such file or directory'')]\<rparr>)"
    using only_Import_Data_checks_its_input
            [where pf = lab and cfg = lab_config and w = locked and ?o1.0 = "[]" and ?e1.0 = "[]"
               and ?fs1.0 = "[''manifest.txt'' \<mapsto> Locked, ''out'' \<mapsto> Folder]"
               and en = Locked, THEN conjunct2, THEN conjunct1]
    by (simp add: lab_mkdir lab_paths locked_def) (simp add: lab_def)
  have c: "\<exists>st rest. trace (snd (task_run lab lab_config Import_Data fresh)) =
       Called [''mkdir'', ''-p'', ''out''] (Exit 0)
       # Opened ''manifest.txt'' None
       # Called [''qiime'', ''tools'', ''import'',
                 ''--type'', ''SampleData[PairedEndSequencesWithQuality]'',
                 ''--input-path'', ''manifest.txt'',
                 ''--output-path'', ''out/paired-end-demux.qza'',
                 ''--input-format'', ''PairedEndFastqManifestPhred33''] st
       # rest"
    using only_Import_Data_checks_its_input
            [where pf = lab and cfg = lab_config and w = fresh and ?o1.0 = "[]" and ?e1.0 = "[]"
               and ?fs1.0 = "(files fresh)(''out'' \<mapsto> Folder)"
               and c = "''sample-id,absolute-filepath,direction''",
             THEN conjunct2, THEN conjunct2, THEN conjunct2, THEN conjunct1]
    by (simp add: lab_mkdir lab_paths fresh_def) (simp add: lab_def ascii_def)
  have g: "task_run lab lab_config Import_Data garbled =
     (Raise UnicodeDecodeError,
      \<lparr>files = [''manifest.txt'' \<mapsto> Data [CHR 0xFF, CHR 0xFE], ''out'' \<mapsto> Folder],
       trace = [Called [''mkdir'', ''-p'', ''out''] (Exit 0),
                Opened ''manifest.txt'' None,
                Misread ''manifest.txt'',
                Logged (''In Import_Data() following error occured'' @ nl
                        @ ''codec can't decode byte'')]\<rparr>)"
    using only_Import_Data_checks_its_input
            [where pf = lab and cfg = lab_config and w = garbled and ?o1.0 = "[]" and ?e1.0 = "[]"
               and ?fs1.0 = "[''manifest.txt'' \<mapsto> Data [CHR 0xFF, CHR 0xFE], ''out'' \<mapsto> Folder]"
               and c = "[CHR 0xFF, CHR 0xFE]",
             THEN conjunct2, THEN conjunct2, THEN conjunct1]
    by (simp add: lab_mkdir lab_paths garbled_def) (simp add: lab_def ascii_def)
  have n: "Taxonomic_Classification \<noteq> Import_Data"
    by simp
  have d: "opened (snd (task_run lab lab_config Taxonomic_Classification denoised)) = []"
    using n only_Import_Data_checks_its_input
            [where pf = lab and cfg = lab_config and w = denoised
               and t = Taxonomic_Classification,
             THEN conjunct2, THEN conjunct2, THEN conjunct2, THEN conjunct2, THEN conjunct1]
    by (simp add: opened_def denoised_def)
  have q: "spawn lab [''qiime'', ''feature-classifier'', ''classify-sklearn'',
                      ''--i-classifier'', ''classifier.qza'',
                      ''--i-reads'', ''out/dada2/dada2-rep-seqs.qza'',
                      ''--o-classification'', ''out/taxonomy/taxonomy.qza'',
                      ''--p-n-jobs'', ''10'',
                      ''--verbose''] ((files denoised)(''out/taxonomy'' \<mapsto> Folder))
           = Exited 1 [] ''There was a problem with the command''
               ((files denoised)(''out/taxonomy'' \<mapsto> Folder))"
    by (simp add: lab_def lab_spawn_def input_options_def denoised_def)
  have m: "files denoised ''classifier.qza'' = None"
    by (simp add: denoised_def)
  have e: "task_run lab lab_config Taxonomic_Classification denoised =
     (Raise (SystemExit 1),
      \<lparr>files = (files denoised)(''out/taxonomy'' \<mapsto> Folder),
       trace = [Called [''mkdir'', ''-p'', ''out/taxonomy''] (Exit 0),
                Called [''qiime'', ''feature-classifier'', ''classify-sklearn'',
                        ''--i-classifier'', ''classifier.qza'',
                        ''--i-reads'', ''out/dada2/dada2-rep-seqs.qza'',
                        ''--o-classification'', ''out/taxonomy/taxonomy.qza'',
                        ''--p-n-jobs'', ''10'',
                        ''--verbose''] (Exit 1),
                Logged (''In Taxonomic_Classification() following error occured'' @ nl
                        @ ''Command returned non-zero exit status'')]\<rparr>)"
    using q only_Import_Data_checks_its_input
            [where pf = lab and cfg = lab_config and w = denoised and ?o2.0 = "[]"
               and ?e2.0 = "[]" and ?fs2.0 = "(files denoised)(''out/taxonomy'' \<mapsto> Folder)"
               and code = 1 and out = "[]" and err = "''There was a problem with the command''"
               and ?fs3.0 = "(files denoised)(''out/taxonomy'' \<mapsto> Folder)",
             THEN conjunct2, THEN conjunct2, THEN conjunct2, THEN conjunct2, THEN conjunct2]
    by (simp add: lab_mkdir lab_paths) (simp add: lab_def denoised_def)
  show ?thesis
    using a b g c n d m e by blast
qed

section \<open>Properties of the scheduler\<close>

lemma replay_append:
  "replay g w (hs1 @ hs2) \<longleftrightarrow> replay g w hs1 \<and> replay g (final w hs1) hs2"
  by (induction hs1 arbitrary: w) auto

lemma final_append: "final w (hs1 @ hs2) = final (final w hs1) hs2"
  by (induction hs1 arbitrary: w) auto

lemma verdict_append:
  assumes "list_all (settled g) hs1" and "verdict g res hs2"
  shows "verdict g res (hs1 @ hs2)"
proof (cases res)
  case (Val u)
  then show ?thesis using assms by (simp add: verdict_def)
next
  case (Raise e)
  from assms(2) Raise consider
    (cyc) "e = CyclicDependency" "list_all (settled g) hs2"
  | (run) pre n r w where "hs2 = pre @ [(n, r, w)]" "list_all (settled g) pre"
      "r = Raise e \<or> (r = Val () \<and> \<not> is_complete g n w \<and> e = IncompleteOutput)"
    by (auto simp: verdict_def)
  then show ?thesis
  proof cases
    case cyc
    then show ?thesis using assms(1) Raise by (simp add: verdict_def)
  next
    case run
    then have "hs1 @ hs2 = (hs1 @ pre) @ [(n, r, w)]" "list_all (settled g) (hs1 @ pre)"
      using assms(1) by simp_all
    then show ?thesis
      using run(3) Raise unfolding verdict_def by (simp only: outcome.case) blast
  qed
qed

lemma story_refl: "story g s (Val ()) s"
  by (simp add: story_def verdict_def)

lemma story_cycle: "story g s (Raise CyclicDependency) s"
  by (simp add: story_def verdict_def)

lemma story_trans:
  assumes "story g s (Val u) s1" and "story g s1 res s2"
  shows "story g s res s2"
proof -
  from assms(1) obtain hs1 where 1: "invoked s1 = invoked s @ hs1" "replay g (world_of s) hs1"
      "world_of s1 = final (world_of s) hs1" "list_all (settled g) hs1"
    by (auto simp: story_def verdict_def)
  from assms(2) obtain hs2 where 2: "invoked s2 = invoked s1 @ hs2" "replay g (world_of s1) hs2"
      "world_of s2 = final (world_of s1) hs2" "verdict g res hs2"
    by (auto simp: story_def)
  have "invoked s2 = invoked s @ (hs1 @ hs2)"
    using 1 2 by simp
  moreover have "replay g (world_of s) (hs1 @ hs2)"
    using 1 2 by (simp add: replay_append)
  moreover have "world_of s2 = final (world_of s) (hs1 @ hs2)"
    using 1 2 by (simp add: final_append)
  moreover have "verdict g res (hs1 @ hs2)"
    using 1(4) 2(4) by (rule verdict_append)
  ultimately show ?thesis
    unfolding story_def by blast
qed

lemma story_run:
  assumes "\<not> is_complete g n (world_of s1)" and "run_node g n (world_of s1) = (r, w2)"
    and "world_of s2 = w2" and "invoked s2 = invoked s1 @ [(n, r, w2)]"
    and "verdict g res [(n, r, w2)]"
  shows "story g s1 res s2"
  unfolding story_def using assms by (intro exI [of _ "[(n, r, w2)]"]) simp

lemma story_resolved: "story g s res (s1\<lparr>resolved := R\<rparr>) = story g s res s1"
  by (simp add: story_def)

lemma verdict_raised: "verdict g (Raise e) [(n, Raise e, w)]"
  by (simp add: verdict_def)

lemma verdict_settled: "is_complete g n w \<Longrightarrow> verdict g (Val ()) [(n, Val (), w)]"
  by (simp add: verdict_def)

lemma verdict_incomplete:
  "\<not> is_complete g n w \<Longrightarrow> verdict g (Raise IncompleteOutput) [(n, Val (), w)]"
  by (simp add: verdict_def)

lemma resolve_story:
  fixes g :: "('n::finite, 'w) engine"
  shows "resolve g visiting n s = (res, s') \<Longrightarrow> story g s res s'"
    and "resolve_all g visiting ds s = (res, s') \<Longrightarrow> story g s res s'"
proof (induction g visiting n s and g visiting ds s arbitrary: res s' and res s'
       rule: resolve_resolve_all.induct)
  case (1 g visiting n s)
  show ?case
  proof (cases "n \<in> set (resolved s)")
    case True
    then show ?thesis using "1.prems" by (auto simp: story_refl)
  next
    case fresh: False
    show ?thesis
    proof (cases "n \<in> set visiting")
      case True
      then show ?thesis using "1.prems" fresh by (auto simp: story_cycle)
    next
      case False
      obtain r1 s1 where deps: "resolve_all g (n # visiting) (dependencies g n) s = (r1, s1)"
        by (cases "resolve_all g (n # visiting) (dependencies g n) s")
      have ih: "story g s r1 s1"
        using "1.IH" [OF fresh False deps] .
      show ?thesis
      proof (cases r1)
        case (Raise e)
        then show ?thesis using "1.prems" fresh False deps ih by simp
      next
        case (Val u)
        show ?thesis
        proof (cases "is_complete g n (world_of s1)")
          case True
          then show ?thesis
            using "1.prems" fresh False deps ih Val by (auto simp: story_resolved)
        next
          case todo: False
          obtain r w2 where run: "run_node g n (world_of s1) = (r, w2)"
            by (cases "run_node g n (world_of s1)")
          show ?thesis
          proof (cases r)
            case (Raise e)
            have "story g s1 (Raise e)
                    (s1\<lparr>world_of := w2, invoked := invoked s1 @ [(n, Raise e, w2)]\<rparr>)"
              using todo run Raise by (intro story_run [where n = n and r = r and ?w2.0 = w2])
                (simp_all add: verdict_raised)
            then show ?thesis
              using "1.prems" fresh False deps ih Val todo run Raise
              by (auto intro: story_trans)
          next
            case ret: (Val u')
            show ?thesis
            proof (cases "is_complete g n w2")
              case True
              have "story g s1 (Val ())
                      \<lparr>world_of = w2, resolved = n # resolved s1,
                       invoked = invoked s1 @ [(n, Val (), w2)]\<rparr>"
                using todo run ret True
                by (intro story_run [where n = n and r = r and ?w2.0 = w2])
                   (simp_all add: verdict_settled)
              then show ?thesis
                using "1.prems" fresh False deps ih Val todo run ret True
                by (auto intro: story_trans)
            next
              case False
              have "story g s1 (Raise IncompleteOutput)
                      (s1\<lparr>world_of := w2, invoked := invoked s1 @ [(n, Val (), w2)]\<rparr>)"
                using todo run ret False
                by (intro story_run [where n = n and r = r and ?w2.0 = w2])
                   (simp_all add: verdict_incomplete)
              then show ?thesis
                using "1.prems" fresh \<open>n \<notin> set visiting\<close> deps ih Val todo run ret False
                by (auto intro: story_trans)
            qed
          qed
        qed
      qed
    qed
  qed
next
  case (2 g visiting s)
  then show ?case by (auto simp: story_refl)
next
  case (3 g visiting d ds s)
  obtain r1 s1 where first: "resolve g visiting d s = (r1, s1)"
    by (cases "resolve g visiting d s")
  have ih1: "story g s r1 s1"
    using "3.IH"(1) [OF first] .
  show ?case
  proof (cases r1)
    case (Raise e)
    then show ?thesis using "3.prems" first ih1 by simp
  next
    case (Val u)
    have "story g s1 res s'"
      using "3.IH"(2) [OF first [symmetric] Val] "3.prems" first Val by simp
    then show ?thesis
      using ih1 Val by (auto intro: story_trans)
  qed
qed

lemma closed_insert:
  "closed g R \<Longrightarrow> set (dependencies g n) \<subseteq> R \<Longrightarrow> closed g (insert n R)"
  by (auto simp: closed_def)

lemma resolve_resolved:
  fixes g :: "('n::finite, 'w) engine"
  shows "resolve g visiting n s = (res, s') \<Longrightarrow>
           set (resolved s) \<subseteq> set (resolved s')
         \<and> set (resolved s') \<inter> set visiting \<subseteq> set (resolved s)
         \<and> (res = Val () \<longrightarrow> n \<in> set (resolved s'))
         \<and> (closed g (set (resolved s)) \<longrightarrow> closed g (set (resolved s')))"
    and "resolve_all g visiting ds s = (res, s') \<Longrightarrow>
           set (resolved s) \<subseteq> set (resolved s')
         \<and> set (resolved s') \<inter> set visiting \<subseteq> set (resolved s)
         \<and> (res = Val () \<longrightarrow> set ds \<subseteq> set (resolved s'))
         \<and> (closed g (set (resolved s)) \<longrightarrow> closed g (set (resolved s')))"
proof (induction g visiting n s and g visiting ds s arbitrary: res s' and res s'
       rule: resolve_resolve_all.induct)
  case (1 g visiting n s)
  show ?case
  proof (cases "n \<in> set (resolved s) \<or> n \<in> set visiting")
    case True
    then show ?thesis using "1.prems" by (auto split: if_splits)
  next
    case False
    then have fresh: "n \<notin> set (resolved s)" and unseen: "n \<notin> set visiting"
      by simp_all
    obtain r1 s1 where deps: "resolve_all g (n # visiting) (dependencies g n) s = (r1, s1)"
      by (cases "resolve_all g (n # visiting) (dependencies g n) s")
    note ih = "1.IH" [OF fresh unseen deps]
    have sub: "set (resolved s) \<subseteq> set (resolved s1)"
      and vis: "set (resolved s1) \<inter> set (n # visiting) \<subseteq> set (resolved s)"
      and got: "r1 = Val () \<longrightarrow> set (dependencies g n) \<subseteq> set (resolved s1)"
      and clo: "closed g (set (resolved s)) \<longrightarrow> closed g (set (resolved s1))"
      using ih by blast+
    show ?thesis
    proof (cases r1)
      case (Raise e)
      then show ?thesis using "1.prems" fresh unseen deps sub vis clo by auto
    next
      case (Val u)
      have added: "closed g (set (resolved s)) \<longrightarrow> closed g (insert n (set (resolved s1)))"
        using clo got Val by (auto intro: closed_insert)
      show ?thesis
        using "1.prems" fresh unseen deps sub vis clo added Val
        by (auto split: if_splits prod.splits outcome.splits)
    qed
  qed
next
  case (2 g visiting s)
  then show ?case by auto
next
  case (3 g visiting d ds s)
  obtain r1 s1 where first: "resolve g visiting d s = (r1, s1)"
    by (cases "resolve g visiting d s")
  note ih1 = "3.IH"(1) [OF first]
  show ?case
  proof (cases r1)
    case (Raise e)
    then show ?thesis using "3.prems" first ih1 by auto
  next
    case (Val u)
    have rest: "resolve_all g visiting ds s1 = (res, s')"
      using "3.prems" first Val by simp
    note ih2 = "3.IH"(2) [OF first [symmetric] Val rest]
    show ?thesis
      using ih1 ih2 Val by auto
  qed
qed

lemma storyE:
  assumes "story g s res s'"
  obtains hs where "invoked s' = invoked s @ hs" "replay g (world_of s) hs"
    "world_of s' = final (world_of s) hs" "verdict g res hs"
  using assms unfolding story_def by blast

lemma verdict_Val: "verdict g (Val u) hs \<longleftrightarrow> list_all (settled g) hs"
  by (simp add: verdict_def)

lemma resolve_settled:
  fixes g :: "('n::finite, 'w) engine"
  shows "resolve g visiting n s = (res, s') \<Longrightarrow> invoked s' = invoked s @ hs \<Longrightarrow>
           \<forall>x \<in> set hs. settled g x \<longleftrightarrow> fst x \<in> set (resolved s')"
    and "resolve_all g visiting ds s = (res, s') \<Longrightarrow> invoked s' = invoked s @ hs \<Longrightarrow>
           \<forall>x \<in> set hs. settled g x \<longleftrightarrow> fst x \<in> set (resolved s')"
proof (induction g visiting n s and g visiting ds s arbitrary: res s' hs and res s' hs
       rule: resolve_resolve_all.induct)
  case (1 g visiting n s)
  show ?case
  proof (cases "n \<in> set (resolved s) \<or> n \<in> set visiting")
    case True
    then have "s' = s" using "1.prems"(1) by (auto split: if_splits)
    then show ?thesis using "1.prems"(2) by simp
  next
    case False
    then have fresh: "n \<notin> set (resolved s)" and unseen: "n \<notin> set visiting"
      by simp_all
    obtain r1 s1 where deps: "resolve_all g (n # visiting) (dependencies g n) s = (r1, s1)"
      by (cases "resolve_all g (n # visiting) (dependencies g n) s")
    from resolve_story(2) [OF deps] obtain hs1 where
      hs1: "invoked s1 = invoked s @ hs1" "verdict g r1 hs1"
      by (rule storyE)
    note ih = "1.IH" [OF fresh unseen deps hs1(1)]
    have out: "n \<notin> set (resolved s1)"
      using resolve_resolved(2) [OF deps] fresh by auto
    show ?thesis
    proof (cases r1)
      case (Raise e)
      then have "s' = s1" using "1.prems"(1) fresh unseen deps by simp
      then show ?thesis using ih hs1(1) "1.prems"(2) by simp
    next
      case (Val u)
      then have all: "list_all (settled g) hs1"
        using hs1(2) by (simp add: verdict_Val)
      then have old: "\<forall>x \<in> set hs1. settled g x \<and> fst x \<in> set (resolved s1)"
        using ih by (simp add: list_all_iff)
      show ?thesis
      proof (cases "is_complete g n (world_of s1)")
        case True
        then have "s' = s1\<lparr>resolved := n # resolved s1\<rparr>"
          using "1.prems"(1) fresh unseen deps Val by simp
        then show ?thesis using old hs1(1) "1.prems"(2) by simp
      next
        case todo: False
        obtain r w2 where run: "run_node g n (world_of s1) = (r, w2)"
          by (cases "run_node g n (world_of s1)")
        have shape: "invoked s' = invoked s1 @ [(n, r, w2)]
                   \<and> set (resolved s') = (if settled g (n, r, w2) then insert n (set (resolved s1))
                                          else set (resolved s1))"
          using "1.prems"(1) fresh unseen deps Val todo run
          by (cases r) (auto split: if_splits)
        then have "hs = hs1 @ [(n, r, w2)]"
          using hs1(1) "1.prems"(2) by simp
        then show ?thesis
          using old shape out by auto
      qed
    qed
  qed
next
  case (2 g visiting s)
  then show ?case by auto
next
  case (3 g visiting d ds s)
  obtain r1 s1 where first: "resolve g visiting d s = (r1, s1)"
    by (cases "resolve g visiting d s")
  from resolve_story(1) [OF first] obtain hs1 where
    hs1: "invoked s1 = invoked s @ hs1" "verdict g r1 hs1"
    by (rule storyE)
  note ih1 = "3.IH"(1) [OF first hs1(1)]
  show ?case
  proof (cases r1)
    case (Raise e)
    then have "s' = s1" using "3.prems"(1) first by simp
    then show ?thesis using ih1 hs1(1) "3.prems"(2) by simp
  next
    case (Val u)
    have rest: "resolve_all g visiting ds s1 = (res, s')"
      using "3.prems"(1) first Val by simp
    from resolve_story(2) [OF rest] obtain hs2 where
      hs2: "invoked s' = invoked s1 @ hs2"
      by (rule storyE)
    note ih2 = "3.IH"(2) [OF first [symmetric] Val rest hs2]
    have grow: "set (resolved s1) \<subseteq> set (resolved s')"
      using resolve_resolved(2) [OF rest] by simp
    have all: "list_all (settled g) hs1"
      using hs1(2) Val by (simp add: verdict_Val)
    have "hs = hs1 @ hs2"
      using hs1(1) hs2 "3.prems"(2) by simp
    then show ?thesis
      using ih1 ih2 all grow by (auto simp: list_all_iff)
  qed
qed

lemma final_snoc: "final w0 (pre @ [(n, r, w)]) = w"
  by (simp add: final_append)

lemma unsettled_last:
  assumes "verdict g res hs" and "x \<in> set hs" and "\<not> settled g x"
  obtains pre n r w e where "hs = pre @ [(n, r, w)]" "x = (n, r, w)" "list_all (settled g) pre"
    "res = Raise e" "r = Raise e \<or> (r = Val () \<and> \<not> is_complete g n w \<and> e = IncompleteOutput)"
proof (cases res)
  case (Val u)
  then show ?thesis using assms by (auto simp: verdict_def list_all_iff)
next
  case (Raise e)
  from assms(1) Raise consider
    (cyc) "list_all (settled g) hs"
  | (run) pre n r w where "hs = pre @ [(n, r, w)]" "list_all (settled g) pre"
      "r = Raise e \<or> (r = Val () \<and> \<not> is_complete g n w \<and> e = IncompleteOutput)"
    by (auto simp: verdict_def)
  then show ?thesis
  proof cases
    case cyc
    then show ?thesis using assms by (auto simp: list_all_iff)
  next
    case run
    then have "x = (n, r, w)"
      using assms(2,3) by (auto simp: list_all_iff)
    then show ?thesis using run Raise that by blast
  qed
qed

text \<open>
  C4. In a resolution, when the run of a node returned without error (the history holds
  it with \<open>Val\<close>) and a declared output of the node is missing in the world that run
  left, the resolution fails with \<open>IncompleteOutput\<close>; that run is the last one invoked,
  and the world the resolution ends in is the one it left.
\<close>

theorem incomplete_output_fails:
  fixes g :: "('n::finite, 'w) engine"
  assumes "resolve g visiting root s = (res, s')"
    and "invoked s' = invoked s @ hs"
    and "(n, Val u, w) \<in> set hs" and "\<not> is_complete g n w"
  shows "res = Raise IncompleteOutput \<and> last hs = (n, Val u, w) \<and> world_of s' = w"
proof -
  from resolve_story(1) [OF assms(1)] obtain hs' where
    1: "invoked s' = invoked s @ hs'" "world_of s' = final (world_of s) hs'" "verdict g res hs'"
    by (rule storyE)
  have same: "hs' = hs"
    using 1(1) assms(2) by simp
  have "\<not> settled g (n, Val u, w)"
    using assms(4) by simp
  with 1(3) assms(3) same obtain pre n' r w' e where
    2: "hs = pre @ [(n', r, w')]" "(n, Val u, w) = (n', r, w')" "res = Raise e"
       "r = Raise e \<or> (r = Val () \<and> \<not> is_complete g n' w' \<and> e = IncompleteOutput)"
    by (auto elim: unsettled_last)
  then show ?thesis
    using 1(2) same by (auto simp: final_snoc)
qed

lemmas eval_simps = main_def start_def pipeline_def complete_def exists_def lab_paths
  Import_Data_run_def plain_runs log_runs run_simps run_cmd_def check_output_def
  check_input_def open_read_def write_target_def logger_error_def lab_def lab_spawn_def
  input_options_def output_options_def dirname_def ascii_def

theorem incomplete_output_fails_witness:
  "invoked (snd (resolve (pipeline lab lab_config) [] Export_Feature_Table (start denoised)))
     = invoked (start denoised)
       @ [(Export_Feature_Table, Val (),
           world_of (snd (resolve (pipeline lab lab_config) [] Export_Feature_Table
                            (start denoised))))]
   \<and> \<not> is_complete (pipeline lab lab_config) Export_Feature_Table
         (world_of (snd (resolve (pipeline lab lab_config) [] Export_Feature_Table
                           (start denoised))))
   \<and> fst (resolve (pipeline lab lab_config) [] Export_Feature_Table (start denoised))
       = Raise IncompleteOutput"
proof -
  let ?R = "resolve (pipeline lab lab_config) [] Export_Feature_Table (start denoised)"
  have h: "invoked (snd ?R)
             = invoked (start denoised) @ [(Export_Feature_Table, Val (), world_of (snd ?R))]"
    by (simp add: eval_simps denoised_def)
  have m: "(Export_Feature_Table, Val (), world_of (snd ?R))
             \<in> set [(Export_Feature_Table, Val (), world_of (snd ?R))]"
    by simp
  have i: "\<not> is_complete (pipeline lab lab_config) Export_Feature_Table (world_of (snd ?R))"
    by (simp add: eval_simps denoised_def)
  show ?thesis
    using h i incomplete_output_fails [OF surjective_pairing [of ?R] h m i] by simp
qed

text \<open>
  A node is run only when it is incomplete at the time it is visited. So a node that is
  complete when a resolution begins is not run in it, as long as every run the resolution
  invokes leaves it complete.
\<close>

lemma replay_skips:
  "replay g w hs \<Longrightarrow> is_complete g N w \<Longrightarrow>
     \<forall>x \<in> set hs. fst x \<noteq> N \<longrightarrow> is_complete g N (snd (snd x)) \<Longrightarrow>
     N \<notin> fst ` set hs"
proof (induction hs arbitrary: w)
  case Nil
  then show ?case by simp
next
  case (Cons x hs)
  obtain n r w' where x: "x = (n, r, w')"
    by (cases x)
  have diff: "n \<noteq> N" and rest: "replay g w' hs"
    using Cons.prems(1,2) x by auto
  have "is_complete g N w'"
    using Cons.prems(3) diff x by simp
  then have "N \<notin> fst ` set hs"
    using Cons.IH [OF rest] Cons.prems(3) by simp
  then show ?case
    using diff x by simp
qed

lemma complete_node_skipped:
  fixes g :: "('n::finite, 'w) engine"
  assumes "resolve g visiting root s = (res, s')"
    and "invoked s' = invoked s @ hs"
    and "is_complete g N (world_of s)"
    and "\<forall>x \<in> set hs. fst x \<noteq> N \<longrightarrow> is_complete g N (snd (snd x))"
  shows "N \<notin> fst ` set hs"
proof -
  from resolve_story(1) [OF assms(1)] obtain hs' where
    1: "invoked s' = invoked s @ hs'" "replay g (world_of s) hs'"
    by (rule storyE)
  have "hs' = hs"
    using 1(1) assms(2) by simp
  then show ?thesis
    using replay_skips [OF 1(2) assms(3)] assms(4) by simp
qed

section \<open>Properties of the pipeline under the scheduler\<close>

lemmas fate_failed0 = fate.command_failed [where pre = "[]", simplified]
lemmas fate_failed1 = fate.command_failed [where pre = "[a]", simplified] for a
lemmas fate_failed2 = fate.command_failed [where pre = "[a, b]", simplified] for a b
lemmas fate_no_start0 = fate.not_started [where pre = "[]", simplified]
lemmas fate_no_start1 = fate.not_started [where pre = "[a]", simplified] for a
lemmas fate_no_start2 = fate.not_started [where pre = "[a, b]", simplified] for a b
lemmas fate_missing1 = fate.input_missing [where pre = "[a]", simplified] for a
lemmas fate_unreadable1 = fate.input_unreadable [where pre = "[a]", simplified] for a
lemmas fate_undecodable2 = fate.input_undecodable [where pre = "[a, b]", simplified] for a b

lemmas fate_intros = fate.returned fate_failed0 fate_failed1 fate_failed2
  fate_no_start0 fate_no_start1 fate_no_start2 fate_missing1 fate_unreadable1
  fate_undecodable2

lemma task_fate:
  assumes "task_run pf cfg t w = (r, w')"
  shows "\<exists>evs. trace w' = trace w @ evs \<and> fate pf cfg t r evs"
proof (cases t)
  case Import_Data
  then show ?thesis
    using assms
    by (auto simp: Import_Data_run_def run_simps check_input_def open_read_def logger_error_def
             split: prod.splits outcome.splits option.splits entry.splits if_splits
             elim!: run_cmd_cases intro!: fate_intros)
next
  case Run_All
  then show ?thesis using assms by (auto simp: ret_def intro: fate.returned)
qed (use assms in \<open>auto simp: plain_runs log_runs run_simps write_target_def
             split: prod.splits outcome.splits
             elim!: run_cmd_cases intro!: fate_intros\<close>)


lemma fate_Val: "fate pf cfg t (Val u) evs \<Longrightarrow> list_all quiet evs"
  by (erule fate.cases) auto

lemma replay_quiet:
  "replay (pipeline pf cfg) w hs \<Longrightarrow> list_all (settled (pipeline pf cfg)) hs \<Longrightarrow>
     \<exists>evs. trace (final w hs) = trace w @ evs \<and> list_all quiet evs"
proof (induction hs arbitrary: w)
  case Nil
  then show ?case by simp
next
  case (Cons x hs)
  obtain n r w' where x: "x = (n, r, w')"
    by (cases x)
  have run: "task_run pf cfg n w = (r, w')" and rest: "replay (pipeline pf cfg) w' hs"
    using Cons.prems(1) x by (simp_all add: pipeline_def)
  obtain u where r: "r = Val u"
    using Cons.prems(2) x by (cases r) simp_all
  from task_fate [OF run] obtain evs1 where
    1: "trace w' = trace w @ evs1" "list_all quiet evs1"
    using r fate_Val by blast
  from Cons.IH [OF rest] Cons.prems(2) obtain evs2 where
    2: "trace (final w' hs) = trace w' @ evs2" "list_all quiet evs2"
    by auto
  have "trace (final w (x # hs)) = trace w @ (evs1 @ evs2)" "list_all quiet (evs1 @ evs2)"
    using 1 2 x by simp_all
  then show ?case by blast
qed

lemma pipeline_story:
  assumes "resolve (pipeline pf cfg) visiting root s = (res, s')"
  obtains
    (calm) hs evs where
      "invoked s' = invoked s @ hs" "list_all (settled (pipeline pf cfg)) hs"
      "trace (world_of s') = trace (world_of s) @ evs" "list_all quiet evs"
      "res = Val () \<or> res = Raise CyclicDependency"
  | (broke) pre t r evs0 evs1 w0 where
      "invoked s' = invoked s @ pre @ [(t, r, world_of s')]"
      "list_all (settled (pipeline pf cfg)) pre"
      "trace (world_of s') = trace (world_of s) @ evs0 @ evs1" "list_all quiet evs0"
      "fate pf cfg t r evs1"
      "(\<exists>e. r = Raise e \<and> res = r) \<or> (r = Val () \<and> res = Raise IncompleteOutput)"
      "task_run pf cfg t w0 = (r, world_of s')"
      "trace w0 = trace (world_of s) @ evs0"
proof -
  let ?g = "pipeline pf cfg"
  from resolve_story(1) [OF assms] obtain hs where
    hs: "invoked s' = invoked s @ hs" "replay ?g (world_of s) hs"
        "world_of s' = final (world_of s) hs" "verdict ?g res hs"
    by (rule storyE)
  from hs(4) consider
    (a) "list_all (settled ?g) hs" "res = Val () \<or> res = Raise CyclicDependency"
  | (b) pre t r w1 e where "res = Raise e" "hs = pre @ [(t, r, w1)]" "list_all (settled ?g) pre"
      "r = Raise e \<or> (r = Val () \<and> \<not> is_complete ?g t w1 \<and> e = IncompleteOutput)"
    by (cases res) (auto simp: verdict_def)
  then show ?thesis
  proof cases
    case a
    from replay_quiet [OF hs(2) a(1)] obtain evs where
      "trace (final (world_of s) hs) = trace (world_of s) @ evs" "list_all quiet evs"
      by blast
    then show ?thesis
      using calm [OF hs(1) a(1) _ _ a(2)] hs(3) by simp
  next
    case b
    have rp: "replay ?g (world_of s) pre"
      and run: "task_run pf cfg t (final (world_of s) pre) = (r, w1)"
      using hs(2) b(2) by (simp_all add: replay_append pipeline_def)
    have w1: "world_of s' = w1"
      using hs(3) b(2) by (simp add: final_snoc)
    from replay_quiet [OF rp b(3)] obtain evs0 where
      0: "trace (final (world_of s) pre) = trace (world_of s) @ evs0" "list_all quiet evs0"
      by blast
    from task_fate [OF run] obtain evs1 where
      1: "trace w1 = trace (final (world_of s) pre) @ evs1" "fate pf cfg t r evs1"
      by blast
    show ?thesis
    proof (rule broke [of pre t r evs0 evs1 "final (world_of s) pre"])
      show "invoked s' = invoked s @ pre @ [(t, r, world_of s')]"
        using hs(1) b(2) w1 by simp
      show "list_all (settled ?g) pre" by (rule b(3))
      show "trace (world_of s') = trace (world_of s) @ evs0 @ evs1"
        using 0(1) 1(1) w1 by simp
      show "list_all quiet evs0" by (rule 0(2))
      show "fate pf cfg t r evs1" by (rule 1(2))
      show "(\<exists>e. r = Raise e \<and> res = r) \<or> (r = Val () \<and> res = Raise IncompleteOutput)"
        using b(1,4) by auto
      show "task_run pf cfg t (final (world_of s) pre) = (r, world_of s')"
        using run w1 by simp
      show "trace (final (world_of s) pre) = trace (world_of s) @ evs0"
        by (rule 0(1))
    qed
  qed
qed

lemma needs_layer: "(a, b) \<in> needs (pipeline pf cfg) \<Longrightarrow> layer b < layer a"
  by (cases a) (auto simp: needs_def pipeline_def)

lemma needs_trancl_layer: "(a, b) \<in> (needs (pipeline pf cfg))\<^sup>+ \<Longrightarrow> layer b < layer a"
  by (induction rule: trancl.induct) (auto dest: needs_layer)

lemma closed_trancl:
  assumes "closed g R"
  shows "(d, t) \<in> (needs g)\<^sup>+ \<Longrightarrow> d \<in> R \<Longrightarrow> t \<in> R"
  by (induction rule: trancl.induct) (use assms in \<open>auto simp: closed_def needs_def\<close>)

lemma loud_in_fate:
  assumes "fate pf cfg t r evs" and "Called cmd (Exit code) \<in> set evs" and "code \<noteq> 0"
  shows "r = Raise (SystemExit 1) \<and>
         (\<exists>pre out. evs = pre @ [Called cmd (Exit code),
             Logged (''In '' @ str_task pf cfg t @ '' following error occured'' @ nl
                     @ str_exn pf (CalledProcessError code cmd out))])"
  using assms
proof (cases rule: fate.cases)
  case (command_failed pre code' cmd' out)
  then have "Called cmd (Exit code) = Called cmd' (Exit code')"
    using assms(2,3) by (auto simp: list_all_iff)
  then show ?thesis using command_failed by auto
qed (use assms in \<open>auto simp: list_all_iff\<close>)

lemma missing_in_fate:
  assumes "fate pf cfg t r evs" and "Opened p (Some ENOENT) \<in> set evs"
  shows "r = Raise (SystemExit 1) \<and> p = manifest_file cfg \<and> t = Import_Data \<and>
         (\<exists>pre. evs = pre @ [Opened p (Some ENOENT),
             Logged ''Input file for qiime tools import does not exist...''])"
  using assms
  by (cases rule: fate.cases) (auto simp: list_all_iff)

lemma fate_status:
  assumes "fate pf cfg t (Raise e) evs"
  shows "exit_status (Raise e) = 1"
  using assms by (cases rule: fate.cases) auto

lemma main_resolve:
  assumes "main pf cfg root w = (status, s')"
  obtains res where "resolve (pipeline pf cfg) [] root (start w) = (res, s')"
    "status = exit_status res"
  using assms by (auto simp: main_def split: prod.splits)

text \<open>
  C5. When, in a run of the pipeline, a command a task calls exits with a nonzero status,
  the process exits with status 1; the run of that task is the last one invoked, and
  every run before it returned and left its task complete; the last two events are that
  call and the message logged for it, which names the task; and no task that requires the
  failing task, directly or through others, is resolved or has its run invoked.
\<close>

theorem failed_command_stops_resolution:
  assumes "main pf cfg root w = (status, s')"
    and "Called cmd (Exit code) \<in> set (drop (length (trace w)) (trace (world_of s')))"
    and "code \<noteq> 0"
  shows "\<exists>t pre before out.
           status = 1
         \<and> invoked s' = pre @ [(t, Raise (SystemExit 1), world_of s')]
         \<and> list_all (settled (pipeline pf cfg)) pre
         \<and> trace (world_of s') =
             before @ [Called cmd (Exit code),
               Logged (''In '' @ str_task pf cfg t @ '' following error occured'' @ nl
                       @ str_exn pf (CalledProcessError code cmd out))]
         \<and> (\<forall>d. (d, t) \<in> (needs (pipeline pf cfg))\<^sup>+ \<longrightarrow>
                d \<notin> set (resolved s') \<and> d \<notin> fst ` set (invoked s'))"
proof -
  let ?g = "pipeline pf cfg"
  from assms(1) obtain res where
    res: "resolve ?g [] root (start w) = (res, s')" "status = exit_status res"
    by (rule main_resolve)
  have w0: "world_of (start w) = w" "invoked (start w) = []" "resolved (start w) = []"
    by (simp_all add: start_def)
  from res(1) show ?thesis
  proof (cases rule: pipeline_story)
    case (calm hs evs)
    then have "Called cmd (Exit code) \<in> set evs"
      using assms(2) w0 by simp
    then show ?thesis
      using calm(4) assms(3) by (auto simp: list_all_iff)
  next
    case (broke pre t r evs0 evs1)
    have "Called cmd (Exit code) \<in> set (evs0 @ evs1)"
      using assms(2) broke(3) w0 by simp
    then have "Called cmd (Exit code) \<in> set evs1"
      using broke(4) assms(3) by (auto simp: list_all_iff)
    from loud_in_fate [OF broke(5) this assms(3)] obtain pre' out where
      r: "r = Raise (SystemExit 1)"
      and evs1: "evs1 = pre' @ [Called cmd (Exit code),
             Logged (''In '' @ str_task pf cfg t @ '' following error occured'' @ nl
                     @ str_exn pf (CalledProcessError code cmd out))]"
      by blast
    have "res = Raise (SystemExit 1)"
      using broke(6) r by auto
    then have st: "status = 1"
      using res(2) by simp
    have inv: "invoked s' = pre @ [(t, Raise (SystemExit 1), world_of s')]"
      using broke(1) w0 r by simp
    have tr: "trace (world_of s') =
             (trace w @ evs0 @ pre') @ [Called cmd (Exit code),
               Logged (''In '' @ str_task pf cfg t @ '' following error occured'' @ nl
                       @ str_exn pf (CalledProcessError code cmd out))]"
      using broke(3) evs1 w0 by simp
    have iff: "\<forall>x \<in> set (pre @ [(t, Raise (SystemExit 1), world_of s')]).
                 settled ?g x \<longleftrightarrow> fst x \<in> set (resolved s')"
      using resolve_settled(1) [OF res(1), of "pre @ [(t, Raise (SystemExit 1), world_of s')]"]
            inv w0 by simp
    have t_out: "t \<notin> set (resolved s')"
      using iff by auto
    have pre_in: "\<forall>x \<in> set pre. fst x \<in> set (resolved s')"
      using iff broke(2) by (auto simp: list_all_iff)
    have cl: "closed ?g (set (resolved s'))"
      using resolve_resolved(1) [OF res(1)] w0 by (simp add: closed_def)
    have dep: "\<forall>d. (d, t) \<in> (needs ?g)\<^sup>+ \<longrightarrow>
                d \<notin> set (resolved s') \<and> d \<notin> fst ` set (invoked s')"
    proof (intro allI impI)
      fix d assume d: "(d, t) \<in> (needs ?g)\<^sup>+"
      have 1: "d \<notin> set (resolved s')"
        using closed_trancl [OF cl d] t_out by blast
      have "d \<noteq> t"
        using needs_trancl_layer [OF d] by auto
      then have 2: "d \<notin> fst ` set (invoked s')"
        using inv pre_in 1 by auto
      show "d \<notin> set (resolved s') \<and> d \<notin> fst ` set (invoked s')"
        using 1 2 by simp
    qed
    show ?thesis
      using st inv broke(2) tr dep by blast
  qed
qed

theorem failed_command_stops_resolution_witness:
  "fst (main lab lab_config Taxonomy_Tabulate fresh) = 1
   \<and> map fst (invoked (snd (main lab lab_config Taxonomy_Tabulate fresh)))
       = [Import_Data, Denoise, Taxonomic_Classification]
   \<and> (Taxonomy_Tabulate, Taxonomic_Classification) \<in> (needs (pipeline lab lab_config))\<^sup>+
   \<and> Taxonomy_Tabulate \<notin> set (resolved (snd (main lab lab_config Taxonomy_Tabulate fresh)))
   \<and> Taxonomy_Tabulate \<notin> fst ` set (invoked (snd (main lab lab_config Taxonomy_Tabulate fresh)))
   \<and> (\<exists>before. trace (world_of (snd (main lab lab_config Taxonomy_Tabulate fresh))) =
         before @ [Called [''qiime'', ''feature-classifier'', ''classify-sklearn'',
                           ''--i-classifier'', ''classifier.qza'',
                           ''--i-reads'', ''out/dada2/dada2-rep-seqs.qza'',
                           ''--o-classification'', ''out/taxonomy/taxonomy.qza'',
                           ''--p-n-jobs'', ''10'',
                           ''--verbose''] (Exit 1),
                   Logged (''In Taxonomic_Classification() following error occured'' @ nl
                           @ ''Command returned non-zero exit status'')])"
proof -
  let ?M = "main lab lab_config Taxonomy_Tabulate fresh"
  let ?cl = "[''qiime'', ''feature-classifier'', ''classify-sklearn'',
              ''--i-classifier'', ''classifier.qza'',
              ''--i-reads'', ''out/dada2/dada2-rep-seqs.qza'',
              ''--o-classification'', ''out/taxonomy/taxonomy.qza'',
              ''--p-n-jobs'', ''10'',
              ''--verbose'']"
  have ev: "Called ?cl (Exit 1) \<in> set (drop (length (trace fresh)) (trace (world_of (snd ?M))))"
    by (simp add: eval_simps fresh_def)
  have ne: "(1::int) \<noteq> 0"
    by simp
  have names: "map fst (invoked (snd ?M)) = [Import_Data, Denoise, Taxonomic_Classification]"
    by (simp add: eval_simps fresh_def)
  have dep: "(Taxonomy_Tabulate, Taxonomic_Classification) \<in> (needs (pipeline lab lab_config))\<^sup>+"
    by (rule r_into_trancl) (simp add: needs_def pipeline_def)
  from failed_command_stops_resolution [OF surjective_pairing [of ?M] ev ne]
  obtain t pre before out where
    1: "fst ?M = 1" "invoked (snd ?M) = pre @ [(t, Raise (SystemExit 1), world_of (snd ?M))]"
       "trace (world_of (snd ?M)) =
          before @ [Called ?cl (Exit 1),
            Logged (''In '' @ str_task lab lab_config t @ '' following error occured'' @ nl
                    @ str_exn lab (CalledProcessError 1 ?cl out))]"
       "\<forall>d. (d, t) \<in> (needs (pipeline lab lab_config))\<^sup>+ \<longrightarrow>
              d \<notin> set (resolved (snd ?M)) \<and> d \<notin> fst ` set (invoked (snd ?M))"
    by blast
  have "map fst pre @ [t] = [Import_Data, Denoise, Taxonomic_Classification]"
    using names 1(2) by simp
  then have t: "t = Taxonomic_Classification"
    by (metis last_snoc last.simps list.distinct(1))
  have "trace (world_of (snd ?M)) =
          before @ [Called ?cl (Exit 1),
            Logged (''In Taxonomic_Classification() following error occured'' @ nl
                    @ ''Command returned non-zero exit status'')]"
    using 1(3) t by (simp add: lab_def)
  then show ?thesis
    using 1(1) names dep 1(4) t by blast
qed

text \<open>
  C2, as the code has it. The process exits with status 0 exactly when the resolution of
  the requested task returns, and with status 1 otherwise. When a command exits with a
  nonzero status, the status is 1, the run of some task \<open>t\<close> is the last one invoked and
  raised \<open>SystemExit 1\<close>, and the last two events of that run are the call and a message
  holding the string of \<open>t\<close> and Python's text of the \<open>CalledProcessError\<close>. When the
  manifest is missing, the status is 1, the run of \<^verbatim>\<open>Import_Data\<close> is the last one invoked
  and raised \<open>SystemExit 1\<close>, and the last two events of that run are the failed opening
  and the fixed message of \<^verbatim>\<open>Import_Data.run\<close>, which holds neither the string of the
  task nor the text of an error.
\<close>

theorem exit_status_of_the_run:
  assumes "main pf cfg root w = (status, s')"
  shows "(status = 0 \<longleftrightarrow> fst (resolve (pipeline pf cfg) [] root (start w)) = Val ())
       \<and> (status = 0 \<or> status = 1)
       \<and> (\<forall>cmd code.
             Called cmd (Exit code) \<in> set (drop (length (trace w)) (trace (world_of s')))
             \<and> code \<noteq> 0 \<longrightarrow>
             status = 1
             \<and> (\<exists>t pre w0 evs out.
                   invoked s' = pre @ [(t, Raise (SystemExit 1), world_of s')]
                 \<and> task_run pf cfg t w0 = (Raise (SystemExit 1), world_of s')
                 \<and> trace (world_of s') =
                     trace w0 @ evs @ [Called cmd (Exit code),
                       Logged (''In '' @ str_task pf cfg t @ '' following error occured'' @ nl
                               @ str_exn pf (CalledProcessError code cmd out))]))
       \<and> (\<forall>p. Opened p (Some ENOENT) \<in> set (drop (length (trace w)) (trace (world_of s')))
              \<longrightarrow>
             status = 1 \<and> p = manifest_file cfg
             \<and> (\<exists>pre w0 evs.
                   invoked s' = pre @ [(Import_Data, Raise (SystemExit 1), world_of s')]
                 \<and> task_run pf cfg Import_Data w0 = (Raise (SystemExit 1), world_of s')
                 \<and> trace (world_of s') =
                     trace w0 @ evs @ [Opened p (Some ENOENT),
                       Logged ''Input file for qiime tools import does not exist...'']))"
proof -
  let ?g = "pipeline pf cfg"
  let ?E = "drop (length (trace w)) (trace (world_of s'))"
  from assms obtain res where
    res: "resolve ?g [] root (start w) = (res, s')" "status = exit_status res"
    by (rule main_resolve)
  have w0: "world_of (start w) = w" "invoked (start w) = []"
    by (simp_all add: start_def)
  from res(1) show ?thesis
  proof (cases rule: pipeline_story)
    case (calm hs evs)
    have E: "?E = evs"
      using calm(3) w0 by simp
    have "\<forall>ev \<in> set ?E. quiet ev"
      using calm(4) E by (simp add: list_all_iff)
    then have no: "\<forall>cmd code. Called cmd (Exit code) \<in> set ?E \<longrightarrow> code = 0"
      "\<forall>p. Opened p (Some ENOENT) \<notin> set ?E"
      by fastforce+
    show ?thesis
      using calm(5) res no by auto
  next
    case (broke pre t r evs0 evs1 v)
    have E: "?E = evs0 @ evs1"
      using broke(3) w0 by simp
    have tr: "trace (world_of s') = trace v @ evs1"
      using broke(3,8) w0 by simp
    have q0: "\<forall>ev \<in> set evs0. quiet ev"
      using broke(4) by (simp add: list_all_iff)
    have st: "status = 1"
      using broke(5,6) res(2) fate_status by auto
    have nv: "res \<noteq> Val ()"
      using broke(6) by auto
    have cmds: "\<forall>cmd code. Called cmd (Exit code) \<in> set ?E \<and> code \<noteq> 0 \<longrightarrow>
             (\<exists>t pre w0 evs out.
                   invoked s' = pre @ [(t, Raise (SystemExit 1), world_of s')]
                 \<and> task_run pf cfg t w0 = (Raise (SystemExit 1), world_of s')
                 \<and> trace (world_of s') =
                     trace w0 @ evs @ [Called cmd (Exit code),
                       Logged (''In '' @ str_task pf cfg t @ '' following error occured'' @ nl
                               @ str_exn pf (CalledProcessError code cmd out))])"
    proof (intro allI impI)
      fix cmd code
      assume a: "Called cmd (Exit code) \<in> set ?E \<and> code \<noteq> 0"
      then have "Called cmd (Exit code) \<in> set evs1"
        using E q0 by fastforce
      from loud_in_fate [OF broke(5) this] a obtain pre' out where
        r: "r = Raise (SystemExit 1)"
        and "evs1 = pre' @ [Called cmd (Exit code),
             Logged (''In '' @ str_task pf cfg t @ '' following error occured'' @ nl
                     @ str_exn pf (CalledProcessError code cmd out))]"
        by blast
      then have 1: "trace (world_of s') =
                   trace v @ pre' @ [Called cmd (Exit code),
                     Logged (''In '' @ str_task pf cfg t @ '' following error occured'' @ nl
                             @ str_exn pf (CalledProcessError code cmd out))]"
        using tr by simp
      have 2: "invoked s' = pre @ [(t, Raise (SystemExit 1), world_of s')]"
        using broke(1) w0 r by simp
      have 3: "task_run pf cfg t v = (Raise (SystemExit 1), world_of s')"
        using broke(7) r by simp
      show "\<exists>t pre w0 evs out.
                   invoked s' = pre @ [(t, Raise (SystemExit 1), world_of s')]
                 \<and> task_run pf cfg t w0 = (Raise (SystemExit 1), world_of s')
                 \<and> trace (world_of s') =
                     trace w0 @ evs @ [Called cmd (Exit code),
                       Logged (''In '' @ str_task pf cfg t @ '' following error occured'' @ nl
                               @ str_exn pf (CalledProcessError code cmd out))]"
        using 1 2 3 by blast
    qed
    have opens: "\<forall>p. Opened p (Some ENOENT) \<in> set ?E \<longrightarrow>
             p = manifest_file cfg
             \<and> (\<exists>pre w0 evs.
                   invoked s' = pre @ [(Import_Data, Raise (SystemExit 1), world_of s')]
                 \<and> task_run pf cfg Import_Data w0 = (Raise (SystemExit 1), world_of s')
                 \<and> trace (world_of s') =
                     trace w0 @ evs @ [Opened p (Some ENOENT),
                       Logged ''Input file for qiime tools import does not exist...''])"
    proof (intro allI impI)
      fix p
      assume a: "Opened p (Some ENOENT) \<in> set ?E"
      then have "Opened p (Some ENOENT) \<in> set evs1"
        using E q0 by fastforce
      from missing_in_fate [OF broke(5) this] obtain pre' where
        r: "r = Raise (SystemExit 1)" and p: "p = manifest_file cfg" and t: "t = Import_Data"
        and "evs1 = pre' @ [Opened p (Some ENOENT),
               Logged ''Input file for qiime tools import does not exist...'']"
        by blast
      then have 1: "trace (world_of s') =
                   trace v @ pre' @ [Opened p (Some ENOENT),
                     Logged ''Input file for qiime tools import does not exist...'']"
        using tr by simp
      have 2: "invoked s' = pre @ [(Import_Data, Raise (SystemExit 1), world_of s')]"
        using broke(1) w0 r t by simp
      have 3: "task_run pf cfg Import_Data v = (Raise (SystemExit 1), world_of s')"
        using broke(7) r t by simp
      show "p = manifest_file cfg
             \<and> (\<exists>pre w0 evs.
                   invoked s' = pre @ [(Import_Data, Raise (SystemExit 1), world_of s')]
                 \<and> task_run pf cfg Import_Data w0 = (Raise (SystemExit 1), world_of s')
                 \<and> trace (world_of s') =
                     trace w0 @ evs @ [Opened p (Some ENOENT),
                       Logged ''Input file for qiime tools import does not exist...''])"
        using p 1 2 3 by blast
    qed
    show ?thesis
      using st nv res(1) cmds opens by simp
  qed
qed

text \<open>
  C2 as stated fails for the missing input. With no manifest, \<^verbatim>\<open>Import_Data.run\<close> logs one
  message and raises \<open>SystemExit 1\<close>. The message is a literal of the source: it names the
  tool, and holds neither the failing task as \<^verbatim>\<open>str\<close> gives it (which is what every other
  error message of the program holds as the stage) nor the text of the error that was
  caught, which the handler does not bind.
\<close>

theorem missing_input_log_counterexample:
  "task_run lab lab_config Import_Data bare =
     (Raise (SystemExit 1),
      \<lparr>files = [''out'' \<mapsto> Folder],
       trace = [Called [''mkdir'', ''-p'', ''out''] (Exit 0),
                Opened ''manifest.txt'' (Some ENOENT),
                Logged ''Input file for qiime tools import does not exist...'']\<rparr>)
   \<and> str_task lab lab_config Import_Data = ''Import_Data()''
   \<and> \<not> mentions (str_task lab lab_config Import_Data)
         ''Input file for qiime tools import does not exist...''
   \<and> \<not> mentions (str_exn lab (OSError ENOENT))
         ''Input file for qiime tools import does not exist...''"
  by (simp add: eval_simps bare_def)

theorem exit_status_of_the_run_witness:
  "fst (main lab lab_config Summarize fresh) = 0
   \<and> fst (main lab lab_config Taxonomic_Classification fresh) = 1
   \<and> (\<exists>pre (w0::world) evs.
         invoked (snd (main lab lab_config Taxonomic_Classification fresh)) =
           pre @ [(Taxonomic_Classification, Raise (SystemExit 1),
                   world_of (snd (main lab lab_config Taxonomic_Classification fresh)))]
       \<and> trace (world_of (snd (main lab lab_config Taxonomic_Classification fresh))) =
           trace w0 @ evs @
             [Called [''qiime'', ''feature-classifier'', ''classify-sklearn'',
                      ''--i-classifier'', ''classifier.qza'',
                      ''--i-reads'', ''out/dada2/dada2-rep-seqs.qza'',
                      ''--o-classification'', ''out/taxonomy/taxonomy.qza'',
                      ''--p-n-jobs'', ''10'',
                      ''--verbose''] (Exit 1),
              Logged (''In Taxonomic_Classification() following error occured''
                      @ nl @ ''Command returned non-zero exit status'')])
   \<and> fst (main lab lab_config Import_Data bare) = 1
   \<and> (\<exists>pre (w0::world) evs.
         invoked (snd (main lab lab_config Import_Data bare)) =
           pre @ [(Import_Data, Raise (SystemExit 1),
                   world_of (snd (main lab lab_config Import_Data bare)))]
       \<and> trace (world_of (snd (main lab lab_config Import_Data bare))) =
           trace w0 @ evs @
             [Opened ''manifest.txt'' (Some ENOENT),
              Logged ''Input file for qiime tools import does not exist...''])"
proof -
  let ?A = "main lab lab_config Summarize fresh"
  let ?B = "main lab lab_config Taxonomic_Classification fresh"
  let ?C = "main lab lab_config Import_Data bare"
  let ?cl = "[''qiime'', ''feature-classifier'', ''classify-sklearn'',
              ''--i-classifier'', ''classifier.qza'',
              ''--i-reads'', ''out/dada2/dada2-rep-seqs.qza'',
              ''--o-classification'', ''out/taxonomy/taxonomy.qza'',
              ''--p-n-jobs'', ''10'',
              ''--verbose'']"
  have a: "fst (resolve (pipeline lab lab_config) [] Summarize (start fresh)) = Val ()"
    by (simp add: eval_simps fresh_def)
  have b: "Called ?cl (Exit 1) \<in> set (drop (length (trace fresh)) (trace (world_of (snd ?B))))"
    by (simp add: eval_simps fresh_def)
  have names: "map fst (invoked (snd ?B)) = [Import_Data, Denoise, Taxonomic_Classification]"
    by (simp add: eval_simps fresh_def)
  have c: "Opened ''manifest.txt'' (Some ENOENT)
             \<in> set (drop (length (trace bare)) (trace (world_of (snd ?C))))"
    by (simp add: eval_simps bare_def)
  have 1: "fst ?A = 0"
    using a exit_status_of_the_run [OF surjective_pairing [of ?A]] by blast
  have ne: "(1::int) \<noteq> 0"
    by simp
  have "fst ?B = 1 \<and> (\<exists>t pre w0 evs out.
          invoked (snd ?B) = pre @ [(t, Raise (SystemExit 1), world_of (snd ?B))]
        \<and> task_run lab lab_config t w0 = (Raise (SystemExit 1), world_of (snd ?B))
        \<and> trace (world_of (snd ?B)) =
            trace w0 @ evs @ [Called ?cl (Exit 1),
              Logged (''In '' @ str_task lab lab_config t @ '' following error occured'' @ nl
                      @ str_exn lab (CalledProcessError 1 ?cl out))])"
    by (rule exit_status_of_the_run
               [OF surjective_pairing [of ?B], THEN conjunct2, THEN conjunct2,
                THEN conjunct1, rule_format, OF conjI [OF b ne]])
  then obtain t pre and w0 :: world and evs out where
    2: "fst ?B = 1" "invoked (snd ?B) = pre @ [(t, Raise (SystemExit 1), world_of (snd ?B))]"
       "trace (world_of (snd ?B)) =
          trace w0 @ evs @ [Called ?cl (Exit 1),
            Logged (''In '' @ str_task lab lab_config t @ '' following error occured'' @ nl
                    @ str_exn lab (CalledProcessError 1 ?cl out))]"
    by (elim conjE exE) (rule that; assumption)
  have "map fst pre @ [t] = [Import_Data, Denoise, Taxonomic_Classification]"
    using names 2(2) by simp
  then have t: "t = Taxonomic_Classification"
    by (metis last_snoc last.simps list.distinct(1))
  have 4: "trace (world_of (snd ?B)) =
          trace w0 @ evs @ [Called ?cl (Exit 1),
            Logged (''In Taxonomic_Classification() following error occured'' @ nl
                    @ ''Command returned non-zero exit status'')]"
    using 2(3) t by (simp add: lab_def)
  have "fst ?C = 1 \<and> ''manifest.txt'' = manifest_file lab_config \<and> (\<exists>pre (w0::world) evs.
             invoked (snd ?C) = pre @ [(Import_Data, Raise (SystemExit 1), world_of (snd ?C))]
           \<and> task_run lab lab_config Import_Data w0 = (Raise (SystemExit 1), world_of (snd ?C))
           \<and> trace (world_of (snd ?C)) =
               trace w0 @ evs @ [Opened ''manifest.txt'' (Some ENOENT),
                 Logged ''Input file for qiime tools import does not exist...''])"
    by (rule exit_status_of_the_run
               [OF surjective_pairing [of ?C], THEN conjunct2, THEN conjunct2,
                THEN conjunct2, rule_format, OF c])
  then have 3: "fst ?C = 1 \<and> (\<exists>pre (w0::world) evs.
             invoked (snd ?C) = pre @ [(Import_Data, Raise (SystemExit 1), world_of (snd ?C))]
           \<and> trace (world_of (snd ?C)) =
               trace w0 @ evs @ [Opened ''manifest.txt'' (Some ENOENT),
                 Logged ''Input file for qiime tools import does not exist...''])"
    by blast
  show ?thesis
    using 1 2(1) 2(2) 4 3 t by blast
qed

end
